theory Spec2Isabelle
  imports Main
begin

section \<open>The objects a Connection holds\<close>

text \<open>
  The model follows \<^verbatim>\<open>class Connection\<close> of the SDK. Every handler is a function from
  the state of the Connection to its next state. What the handler does to the outside
  (frames written to the socket, peer connections created, public callbacks invoked,
  settlement of the promise that \<^verbatim>\<open>connect()\<close> awaits, exceptions that escape) is
  appended to the \<open>effects\<close> trace, oldest first. Debug logging (\<^verbatim>\<open>_traceLog\<close>) is left
  out.
\<close>

type_synonym metadata = nat
type_synonym payload = nat
type_synonym media_stream = nat

text \<open>
  A field that the source leaves unassigned, sets to \<^verbatim>\<open>null\<close> or sets to an object:
  \<^verbatim>\<open>_ws\<close> and \<^verbatim>\<open>remoteStreamId\<close> are not assigned by the constructor, and a codec option
  may be absent. \<open>obj\<close> is the object when the field is truthy.
\<close>

datatype 'a field = Undefined | Null | Holds 'a

fun obj :: "'a field \<Rightarrow> 'a option" where
  "obj Undefined = None"
| "obj Null = None"
| "obj (Holds x) = Some x"

text \<open>\<^verbatim>\<open>WebSocket.readyState\<close>: 0, 1, 2, 3.\<close>

datatype ready_state = CONNECTING | OPEN | CLOSING | CLOSED

text \<open>
  The closures that the source assigns to \<^verbatim>\<open>_ws.onclose\<close>:
  \<^item> \<open>CloseRejects\<close>: \<^verbatim>\<open>() => reject('WS-CLOSED')\<close>,
  \<^item> \<open>CloseTearsDown\<close>: \<^verbatim>\<open>async event => { await this.disconnect(); this._callbacks.disconnect(event) }\<close>,
  \<^item> \<open>CloseTearsDownTagged\<close>: the one installed after accept, with reason \<^verbatim>\<open>WS-CLOSED\<close>,
  \<^item> \<open>CloseIgnored\<close>: \<^verbatim>\<open>() => {}\<close>, installed by \<^verbatim>\<open>disconnect()\<close>.

  \<^verbatim>\<open>onerror\<close> is assigned once, by \<^verbatim>\<open>_signaling\<close>, and never replaced. \<open>failing\<close> is
  set when \<^verbatim>\<open>close()\<close> is called on a socket that is still connecting: the browser then
  fails the connection, and fires \<^verbatim>\<open>error\<close> before \<^verbatim>\<open>close\<close> when the socket reaches
  readyState 3.
\<close>

datatype close_handler = CloseRejects | CloseTearsDown | CloseTearsDownTagged | CloseIgnored

record web_socket =
  readyState :: ready_state
  onclose :: close_handler
  onmessage_set :: bool
  failing :: bool

text \<open>
  The peer connection. \<open>signaling_closed\<close> is \<^verbatim>\<open>signalingState == 'closed'\<close>;
  \<open>ice_handler\<close> is false once \<^verbatim>\<open>oniceconnectionstatechange\<close> has been replaced by
  \<^verbatim>\<open>() => {}\<close>.
\<close>

record peer_connection =
  signaling_closed :: bool
  ice_handler :: bool

datatype channel_state = ChConnecting | ChOpen | ChClosing | ChClosed

record data_channel =
  label :: string
  chan_state :: channel_state

datatype direction = Sendrecv | Recvonly | Sendonly

record media_option =
  direction :: direction
  enabled :: bool
  codec :: "string field"

record connection_options =
  audio :: media_option
  video :: media_option
  clientId :: string

text \<open>A local stream: whether it has an audio and a video track. The caller of
  \<^verbatim>\<open>connect\<close> passes a stream or \<^verbatim>\<open>null\<close>.\<close>

record local_stream =
  stream_id :: media_stream
  has_audio :: bool
  has_video :: bool

text \<open>A value stored in the callback table: the constructor's \<^verbatim>\<open>() => {}\<close> or a
  function of the application.\<close>

datatype callback = Noop | Handler nat

text \<open>The frames the Connection writes: the register message (room id, client id,
  authnMetadata), pong, the local description after an offer or an answer was created,
  and a local candidate.\<close>

datatype wire =
    Register string string "metadata option"
  | Pong
  | OfferSdp
  | AnswerSdp
  | IceCandidate nat

text \<open>
  What arrives in \<^verbatim>\<open>event.data\<close>: something that is not a string, or a text;
  \<^verbatim>\<open>JSON.parse\<close> of the text throws (\<open>Malformed\<close>), yields \<^verbatim>\<open>null\<close>, or yields a
  value whose \<^verbatim>\<open>type\<close>, \<^verbatim>\<open>authzMetadata\<close> and \<^verbatim>\<open>ice\<close> the handler reads (a value
  without a \<^verbatim>\<open>type\<close> is one whose \<open>msg_type\<close> is none of the known kinds). The
  \<^verbatim>\<open>ice\<close> member is absent or falsy, or a value \<^verbatim>\<open>new RTCIceCandidate\<close> refuses with a
  TypeError, or one it accepts.
\<close>

datatype ice_value = Absent | Unusable | Usable nat

record message =
  msg_type :: string
  authzMetadata :: "metadata option"
  ice :: ice_value

datatype parsed = Malformed | JsonNull | Json message

datatype ws_data = Binary | Text parsed

datatype reason =
    Event nat
  | WS_CLOSED nat
  | REJECTED
  | SIGNALING_ERROR
  | ICE_CONNECTION_STATE_FAILED
  | CREATE_ANSWER_ERROR
  | SET_OFFER_ERROR

text \<open>
  \<open>Sent\<close> is a frame handed to \<^verbatim>\<open>_ws.send\<close> on an open socket; \<open>EngineCreated\<close> is
  a \<^verbatim>\<open>new RTCPeerConnection\<close>; the \<open>Fired\<close> effects are calls of the public callbacks,
  with the function that was called; \<open>ConnectResolved\<close> and \<open>ConnectRejected\<close> are the
  calls of \<^verbatim>\<open>resolve\<close> and \<^verbatim>\<open>reject\<close> of the promise \<^verbatim>\<open>connect()\<close> awaits (the first
  one settles it); \<open>Unhandled\<close> is an exception that leaves an event handler.
\<close>

datatype effect =
    Sent wire
  | EngineCreated
  | FiredConnect callback "metadata option"
  | FiredDisconnect callback reason
  | FiredData callback string payload
  | FiredAddstream callback nat
  | FiredClose callback
  | ConnectResolved
  | ConnectRejected string
  | ChannelSent string payload
  | TracksStopped media_stream
  | Unhandled string

record connection =
  debug :: bool
  roomId :: string
  signalingUrl :: string
  options :: connection_options
  stream :: "local_stream option"
  remoteStreamId :: "nat field"
  authnMetadata :: "metadata option"
  isNegotiating :: bool
  removeCodec :: bool
  ws :: "web_socket field"
  pc :: "peer_connection option"
  dataChannels :: "data_channel list"
  callbacks :: "string \<rightharpoonup> callback"
  callbacks_proto :: "callback option"
  effects :: "effect list"

text \<open>
  What happens to a closing socket between two polls of a teardown: nothing yet, the
  closing handshake completes, or the connection fails (the browser then fires
  \<^verbatim>\<open>error\<close> before \<^verbatim>\<open>close\<close>).
\<close>

datatype tick = Quiet | Closes | Fails

text \<open>
  What the browser does, as far as the handlers depend on it: which browser it is, whether
  the URL is one \<^verbatim>\<open>new WebSocket\<close> accepts, whether each call into the media engine
  succeeds, and, for a teardown that has to wait, what happens to the socket in each of
  the 800 ms intervals between its polls (\<open>closes_after\<close>).
\<close>

record browser =
  safari :: bool
  url_ok :: bool
  has_setCodecPreferences :: bool
  create_pc_ok :: bool
  create_channel_ok :: bool
  create_offer_ok :: bool
  set_local_ok :: bool
  set_remote_ok :: bool
  create_answer_ok :: bool
  closes_after :: "tick list"

section \<open>Outcomes of handlers\<close>

text \<open>
  A handler ends normally (\<open>Done\<close>), with an exception or a rejected promise
  (\<open>Threw\<close>), or is still suspended in an \<^verbatim>\<open>await\<close> when the modelled time is over
  (\<open>Waiting\<close>). Each carries the state of the Connection at that point.
\<close>

datatype outcome = Done connection | Threw string connection | Waiting connection

fun state_of :: "outcome \<Rightarrow> connection" where
  "state_of (Done c) = c"
| "state_of (Threw e c) = c"
| "state_of (Waiting c) = c"

text \<open>Sequencing of statements, and \<^verbatim>\<open>try { ... } catch (error) { ... }\<close>.\<close>

definition and_then :: "outcome \<Rightarrow> (connection \<Rightarrow> outcome) \<Rightarrow> outcome" where
  "and_then r f = (case r of Done c \<Rightarrow> f c | Threw e c \<Rightarrow> Threw e c | Waiting c \<Rightarrow> Waiting c)"

definition catch :: "outcome \<Rightarrow> (connection \<Rightarrow> outcome) \<Rightarrow> outcome" where
  "catch r h = (case r of Done c \<Rightarrow> Done c | Threw e c \<Rightarrow> h c | Waiting c \<Rightarrow> Waiting c)"

definition emit :: "effect \<Rightarrow> connection \<Rightarrow> connection" where
  "emit e c = c\<lparr>effects := effects c @ [e]\<rparr>"

text \<open>A call that is not awaited: the caller goes on; an exception of the callee is an
  unhandled rejection.\<close>

definition detached :: "outcome \<Rightarrow> outcome" where
  "detached r =
     (case r of Done c \<Rightarrow> Done c | Threw e c \<Rightarrow> Done (emit (Unhandled e) c) | Waiting c \<Rightarrow> Done c)"

text \<open>An exception that leaves an event handler is an unhandled error; one that leaves a
  call of the application goes to the caller.\<close>

definition settle :: "outcome \<Rightarrow> connection" where
  "settle r = (case r of Threw e c \<Rightarrow> emit (Unhandled e) c | _ \<Rightarrow> state_of r)"

text \<open>
  \<^verbatim>\<open>this._callbacks.kind(...)\<close>: the own property is called; a name that is not in the
  table at all is \<^verbatim>\<open>undefined\<close>, and calling it is a TypeError. (None of the names
  the source calls is an inherited one.) Callbacks of the application are taken to
  return normally.
\<close>

definition fire :: "string \<Rightarrow> (callback \<Rightarrow> effect) \<Rightarrow> connection \<Rightarrow> outcome" where
  "fire kind mk c =
     (case callbacks c kind of
        Some cb \<Rightarrow> Done (emit (mk cb) c)
      | None \<Rightarrow> Threw ''TypeError: this._callbacks.'' c)"

definition fire_disconnect :: "reason \<Rightarrow> connection \<Rightarrow> outcome" where
  "fire_disconnect r c = fire ''disconnect'' (\<lambda>cb. FiredDisconnect cb r) c"

text \<open>
  \<^verbatim>\<open>_sendWs\<close>: nothing without a socket. \<^verbatim>\<open>WebSocket.send\<close> throws on a socket
  that is still connecting and drops the frame on one that is closing or closed.
\<close>

definition sendWs :: "wire \<Rightarrow> connection \<Rightarrow> outcome" where
  "sendWs m c =
     (case obj (ws c) of
        None \<Rightarrow> Done c
      | Some w \<Rightarrow>
          (case readyState w of
             CONNECTING \<Rightarrow> Threw ''InvalidStateError'' c
           | OPEN \<Rightarrow> Done (emit (Sent m) c)
           | CLOSING \<Rightarrow> Done c
           | CLOSED \<Rightarrow> Done c))"

definition findDataChannel :: "string \<Rightarrow> connection \<Rightarrow> data_channel option" where
  "findDataChannel channelId c = find (\<lambda>channel. label channel = channelId) (dataChannels c)"

section \<open>Constructor and \<^verbatim>\<open>on\<close>\<close>

definition initial_callbacks :: "string \<rightharpoonup> callback" where
  "initial_callbacks =
     [''connect'' \<mapsto> Noop, ''disconnect'' \<mapsto> Noop, ''addstream'' \<mapsto> Noop,
      ''removestream'' \<mapsto> Noop, ''data'' \<mapsto> Noop]"

text \<open>The constructor. It assigns neither \<^verbatim>\<open>_ws\<close> nor \<^verbatim>\<open>remoteStreamId\<close>.\<close>

definition Connection :: "string \<Rightarrow> string \<Rightarrow> connection_options \<Rightarrow> bool \<Rightarrow> connection" where
  "Connection url room opts dbg =
     \<lparr> debug = dbg, roomId = room, signalingUrl = url, options = opts,
       stream = None, remoteStreamId = Undefined, authnMetadata = None,
       isNegotiating = False, removeCodec = False, ws = Undefined, pc = None,
       dataChannels = [], callbacks = initial_callbacks, callbacks_proto = None,
       effects = [] \<rparr>"

text \<open>
  \<^verbatim>\<open>kind in this._callbacks\<close> is JavaScript's \<^verbatim>\<open>in\<close>: true for an own property and for
  a property inherited through the prototype chain. The table is an object literal, so
  its prototype is \<^verbatim>\<open>Object.prototype\<close>, unless an assignment to \<^verbatim>\<open>__proto__\<close> has
  replaced it by a callback (an arrow function with no properties of its own besides
  \<^verbatim>\<open>length\<close> and \<^verbatim>\<open>name\<close>; through it the names of \<^verbatim>\<open>Function.prototype\<close> and of
  \<^verbatim>\<open>Object.prototype\<close> are inherited).
\<close>

definition object_prototype_names :: "string list" where
  "object_prototype_names =
     [''constructor'', ''__defineGetter__'', ''__defineSetter__'', ''hasOwnProperty'',
      ''__lookupGetter__'', ''__lookupSetter__'', ''isPrototypeOf'',
      ''propertyIsEnumerable'', ''toString'', ''valueOf'', ''__proto__'',
      ''toLocaleString'']"

text \<open>Of the names inherited through a function, \<^verbatim>\<open>length\<close> and \<^verbatim>\<open>name\<close> are not
  writable and \<^verbatim>\<open>arguments\<close> and \<^verbatim>\<open>caller\<close> are accessors whose setter throws.\<close>

definition read_only_names :: "string list" where
  "read_only_names = [''length'', ''name'', ''arguments'', ''caller'']"

definition function_names :: "string list" where
  "function_names = read_only_names @ [''apply'', ''bind'', ''call''] @ object_prototype_names"

definition inherited_names :: "connection \<Rightarrow> string list" where
  "inherited_names c =
     (case callbacks_proto c of None \<Rightarrow> object_prototype_names | Some f \<Rightarrow> function_names)"

definition js_in :: "string \<Rightarrow> connection \<Rightarrow> bool" where
  "js_in kind c =
     (case callbacks c kind of Some cb \<Rightarrow> True | None \<Rightarrow> kind \<in> set (inherited_names c))"

text \<open>
  \<^verbatim>\<open>this._callbacks[kind] = callback\<close>, in the strict mode of a module. An own property
  is written. Otherwise \<^verbatim>\<open>__proto__\<close> is the accessor of \<^verbatim>\<open>Object.prototype\<close>, whose
  setter replaces the prototype and creates no own property; a name inherited as
  read-only makes the assignment a TypeError; any other name becomes a new own property.
\<close>

definition js_assign :: "string \<Rightarrow> callback \<Rightarrow> connection \<Rightarrow> outcome" where
  "js_assign kind cb c =
     (case callbacks c kind of
        Some old \<Rightarrow> Done (c\<lparr>callbacks := (callbacks c)(kind \<mapsto> cb)\<rparr>)
      | None \<Rightarrow>
          if kind = ''__proto__'' then Done (c\<lparr>callbacks_proto := Some cb\<rparr>)
          else if kind \<in> set read_only_names \<and> kind \<in> set (inherited_names c)
          then Threw ''TypeError: Cannot assign to read only property'' c
          else Done (c\<lparr>callbacks := (callbacks c)(kind \<mapsto> cb)\<rparr>))"

definition on :: "string \<Rightarrow> callback \<Rightarrow> connection \<Rightarrow> outcome" where
  "on kind cb c = (if js_in kind c then js_assign kind cb c else Done c)"

section \<open>Teardown: \<^verbatim>\<open>disconnect()\<close>\<close>

text \<open>
  \<^verbatim>\<open>disconnect()\<close> runs in three parts. \<open>disconnect_begin\<close> is everything up to
  \<^verbatim>\<open>await Promise.all(...)\<close>: it closes the data channels, runs the executors of the two
  promises (each is resolved at once or left to a timer that polls every 800 ms), stops
  the local tracks and clears the transient fields. \<open>polls_fire\<close> is one round of the
  timers; they read \<^verbatim>\<open>this._pc\<close> and \<^verbatim>\<open>this._ws\<close> of the Connection as they are then.
  \<open>disconnect_finish\<close> is the part after the \<^verbatim>\<open>await\<close>.
\<close>

datatype promise = Pending | Resolved | Rejected string

record teardown =
  ws_closed :: promise
  pc_closed :: promise

definition close_channel :: "data_channel \<Rightarrow> data_channel" where
  "close_channel d = (if chan_state d = ChClosed then d else d\<lparr>chan_state := ChClosing\<rparr>)"

definition closePeerConnection :: "browser \<Rightarrow> connection \<Rightarrow> promise \<times> connection" where
  "closePeerConnection br c =
     (case pc c of
        None \<Rightarrow> (Resolved, c)
      | Some p \<Rightarrow>
          if safari br then (Resolved, c\<lparr>pc := None\<rparr>)
          else if signaling_closed p then (Resolved, c)
          else (Pending, c\<lparr>pc := Some (p\<lparr>ice_handler := False, signaling_closed := True\<rparr>)\<rparr>))"

text \<open>\<^verbatim>\<open>WebSocket.close()\<close>: nothing on a socket that is closing or closed; an open
  socket starts the closing handshake; a socket that is still connecting is failed.\<close>

definition ws_close :: "web_socket \<Rightarrow> web_socket" where
  "ws_close w =
     (case readyState w of
        CONNECTING \<Rightarrow> w\<lparr>readyState := CLOSING, failing := True\<rparr>
      | OPEN \<Rightarrow> w\<lparr>readyState := CLOSING\<rparr>
      | CLOSING \<Rightarrow> w
      | CLOSED \<Rightarrow> w)"

definition closeWebSocketConnection :: "connection \<Rightarrow> promise \<times> connection" where
  "closeWebSocketConnection c =
     (case obj (ws c) of
        None \<Rightarrow> (Resolved, c)
      | Some w \<Rightarrow>
          if readyState w = CLOSED then (Resolved, c)
          else (Pending, c\<lparr>ws := Holds (ws_close (w\<lparr>onclose := CloseIgnored\<rparr>))\<rparr>))"

definition stop_tracks :: "connection \<Rightarrow> connection" where
  "stop_tracks c =
     (case stream c of None \<Rightarrow> c | Some st \<Rightarrow> emit (TracksStopped (stream_id st)) c)"

definition disconnect_begin :: "browser \<Rightarrow> connection \<Rightarrow> teardown \<times> connection" where
  "disconnect_begin br c =
     (let c1 = c\<lparr>dataChannels := map close_channel (dataChannels c)\<rparr>;
          (p, c2) = closePeerConnection br c1;
          (w, c3) = closeWebSocketConnection c2;
          c4 = stop_tracks c3
      in (\<lparr>ws_closed = w, pc_closed = p\<rparr>,
          c4\<lparr>remoteStreamId := Null, stream := None, authnMetadata := None,
             isNegotiating := False\<rparr>))"

definition pc_poll :: "connection \<Rightarrow> promise" where
  "pc_poll c =
     (case pc c of
        None \<Rightarrow> Rejected ''PeerConnection Closing Error''
      | Some p \<Rightarrow> if signaling_closed p then Resolved else Pending)"

definition ws_poll :: "connection \<Rightarrow> promise" where
  "ws_poll c =
     (case obj (ws c) of
        None \<Rightarrow> Rejected ''WebSocket Closing Error''
      | Some w \<Rightarrow> if readyState w = CLOSED then Resolved else Pending)"

definition polls_fire :: "connection \<Rightarrow> teardown \<Rightarrow> teardown" where
  "polls_fire c t =
     \<lparr>ws_closed = (if ws_closed t = Pending then ws_poll c else ws_closed t),
      pc_closed = (if pc_closed t = Pending then pc_poll c else pc_closed t)\<rparr>"

text \<open>\<^verbatim>\<open>Promise.all([closeWebSocketConnection, closePeerConnection])\<close>. Within one round
  the timer of the peer connection, set first, fires first.\<close>

definition promise_all :: "teardown \<Rightarrow> promise" where
  "promise_all t =
     (case pc_closed t of
        Rejected e \<Rightarrow> Rejected e
      | Pending \<Rightarrow> (case ws_closed t of Rejected e \<Rightarrow> Rejected e | _ \<Rightarrow> Pending)
      | Resolved \<Rightarrow> ws_closed t)"

definition disconnect_finish :: "connection \<Rightarrow> connection" where
  "disconnect_finish c = c\<lparr>ws := Null, pc := None, removeCodec := False, dataChannels := []\<rparr>"

text \<open>The browser sets readyState to 3.\<close>

definition socket_reaches_closed :: "connection \<Rightarrow> connection" where
  "socket_reaches_closed c =
     (case obj (ws c) of None \<Rightarrow> c | Some w \<Rightarrow> c\<lparr>ws := Holds (w\<lparr>readyState := CLOSED\<rparr>)\<rparr>)"

text \<open>
  The closures \<^verbatim>\<open>_signaling\<close> puts on the socket for \<^verbatim>\<open>error\<close> and \<^verbatim>\<open>close\<close>, for a
  given way \<open>d\<close> of running the \<^verbatim>\<open>disconnect()\<close> they await.
\<close>

definition onerror_by :: "(connection \<Rightarrow> outcome) \<Rightarrow> connection \<Rightarrow> outcome" where
  "onerror_by d c = and_then (d c) (\<lambda>c. Done (emit (ConnectRejected ''WS-CLOSED'') c))"

definition run_onclose_by ::
  "(connection \<Rightarrow> outcome) \<Rightarrow> close_handler \<Rightarrow> nat \<Rightarrow> connection \<Rightarrow> outcome" where
  "run_onclose_by d h ev c =
     (case h of
        CloseRejects \<Rightarrow> Done (emit (ConnectRejected ''WS-CLOSED'') c)
      | CloseTearsDown \<Rightarrow> and_then (d c) (fire_disconnect (Event ev))
      | CloseTearsDownTagged \<Rightarrow> and_then (d c) (fire_disconnect (WS_CLOSED ev))
      | CloseIgnored \<Rightarrow> Done c)"

text \<open>
  A \<^verbatim>\<open>disconnect()\<close> that a handler starts while another \<^verbatim>\<open>disconnect()\<close> waits. The
  waiting one has closed the peer connection, and the handler runs when the socket is
  closed, so this one has nothing to wait for and runs to its end at once (lemma
  \<open>nested_runs_to_end\<close>).
\<close>

definition nested_disconnect :: "browser \<Rightarrow> connection \<Rightarrow> outcome" where
  "nested_disconnect br c =
     (let (t, c1) = disconnect_begin br c
      in case promise_all t of
           Resolved \<Rightarrow> Done (disconnect_finish c1)
         | Rejected e \<Rightarrow> Threw e c1
         | Pending \<Rightarrow> Waiting c1)"

text \<open>
  The task of the browser when a socket that is not yet closed reaches CLOSED while a
  teardown waits: readyState becomes 3; when the connection failed, or was closed while
  connecting, \<^verbatim>\<open>error\<close> is fired and the \<^verbatim>\<open>onerror\<close> closure runs; then \<^verbatim>\<open>close\<close> is
  fired and the \<^verbatim>\<open>onclose\<close> closure of the socket runs.
\<close>

definition close_task :: "browser \<Rightarrow> bool \<Rightarrow> connection \<Rightarrow> connection" where
  "close_task br failed c =
     (case obj (ws c) of
        None \<Rightarrow> c
      | Some w \<Rightarrow>
          if readyState w = CLOSED then c
          else
            (let c0 = socket_reaches_closed c;
                 c1 = (if failed \<or> failing w
                       then settle (onerror_by (nested_disconnect br) c0) else c0)
             in settle (run_onclose_by (nested_disconnect br) (onclose w) 0 c1)))"

definition interval :: "browser \<Rightarrow> tick \<Rightarrow> connection \<Rightarrow> connection" where
  "interval br k c =
     (case k of Quiet \<Rightarrow> c | Closes \<Rightarrow> close_task br False c | Fails \<Rightarrow> close_task br True c)"

text \<open>
  The wait, with no other call or event in between: one list element per 800 ms
  interval, each followed by a round of the timers. The timers never stop by themselves:
  when the list is used up the teardown is still \<open>Pending\<close>.
\<close>

fun await_closed ::
  "browser \<Rightarrow> tick list \<Rightarrow> teardown \<Rightarrow> connection \<Rightarrow> promise \<times> connection" where
  "await_closed br [] t c = (promise_all t, c)"
| "await_closed br (k # ks) t c =
     (if promise_all t = Pending
      then (let c' = interval br k c in await_closed br ks (polls_fire c' t) c')
      else (promise_all t, c))"

definition disconnect :: "browser \<Rightarrow> connection \<Rightarrow> outcome" where
  "disconnect br c =
     (let (t, c1) = disconnect_begin br c;
          (r, c2) = await_closed br (closes_after br) t c1
      in case r of
           Resolved \<Rightarrow> Done (disconnect_finish c2)
         | Rejected e \<Rightarrow> Threw e c2
         | Pending \<Rightarrow> Waiting c2)"

section \<open>Data channels\<close>

definition addDataChannel :: "string \<Rightarrow> browser \<Rightarrow> connection \<Rightarrow> outcome" where
  "addDataChannel channelId br c =
     (if pc c = None then Threw ''PeerConnection Does Not Ready'' c
      else if findDataChannel channelId c \<noteq> None then Threw ''DataChannel Already Exists!'' c
      else if \<not> create_channel_ok br then Threw ''createDataChannel'' c
      else Done c)"

text \<open>The handlers \<^verbatim>\<open>addDataChannel\<close> puts on the channel it created. The browser sets
  the channel's readyState to open before it calls \<^verbatim>\<open>onopen\<close>.\<close>

definition channel_onopen :: "data_channel \<Rightarrow> connection \<Rightarrow> connection" where
  "channel_onopen d c = c\<lparr>dataChannels := dataChannels c @ [d\<lparr>chan_state := ChOpen\<rparr>]\<rparr>"

definition channel_onclose :: "string \<Rightarrow> connection \<Rightarrow> connection" where
  "channel_onclose channelId c =
     c\<lparr>dataChannels := filter (\<lambda>dataChannel. label dataChannel \<noteq> channelId) (dataChannels c)\<rparr>"

definition channel_onerror :: "string \<Rightarrow> connection \<Rightarrow> connection" where
  "channel_onerror channelId c =
     c\<lparr>dataChannels := filter (\<lambda>dataChannel. label dataChannel \<noteq> channelId) (dataChannels c)\<rparr>"

definition channel_onmessage :: "string \<Rightarrow> payload \<Rightarrow> connection \<Rightarrow> outcome" where
  "channel_onmessage channelId p c = fire ''data'' (\<lambda>cb. FiredData cb channelId p) c"

text \<open>\<^verbatim>\<open>_onDataChannel\<close>, for a channel the remote side created.\<close>

definition onDataChannel :: "data_channel \<Rightarrow> connection \<Rightarrow> connection" where
  "onDataChannel d c =
     (if pc c = None then c
      else if label d = [] then c
      else if findDataChannel (label d) c = None
      then c\<lparr>dataChannels := dataChannels c @ [d]\<rparr>
      else c\<lparr>dataChannels :=
              map (\<lambda>channel. if label channel = label d then d else channel) (dataChannels c)\<rparr>)"

text \<open>\<^verbatim>\<open>sendData\<close>. The channel's own \<^verbatim>\<open>send\<close> is taken to accept the payload.\<close>

definition sendData :: "payload \<Rightarrow> string \<Rightarrow> connection \<Rightarrow> outcome" where
  "sendData params channelId c =
     (case findDataChannel channelId c of
        Some dataChannel \<Rightarrow>
          if chan_state dataChannel = ChOpen then Done (emit (ChannelSent channelId params) c)
          else Threw ''datachannel is not open'' c
      | None \<Rightarrow> Threw ''datachannel is not open'' c)"

section \<open>\<^verbatim>\<open>connect\<close> and the signaling handlers\<close>

text \<open>\<^verbatim>\<open>_isVideoCodecSpecified\<close> compares the codec with \<^verbatim>\<open>null\<close> only: an absent
  codec counts as specified.\<close>

definition isVideoCodecSpecified :: "connection \<Rightarrow> bool" where
  "isVideoCodecSpecified c \<longleftrightarrow> enabled (video (options c)) \<and> codec (video (options c)) \<noteq> Null"

text \<open>
  \<^verbatim>\<open>_createPeerConnection\<close>, with the assignment of its result to \<^verbatim>\<open>_pc\<close> that both
  callers make. Of what it does to the Connection besides only \<^verbatim>\<open>_removeCodec\<close>
  remains: set when a video track is added or a video transceiver is created, a codec is
  specified and the transceiver has no \<^verbatim>\<open>setCodecPreferences\<close>. A failure of the engine
  is an exception of the constructor.
\<close>

definition sends_video :: "connection \<Rightarrow> bool" where
  "sends_video c \<longleftrightarrow>
     (case stream c of None \<Rightarrow> False | Some st \<Rightarrow> has_video st)
     \<and> direction (video (options c)) \<noteq> Recvonly"

definition createPeerConnection :: "browser \<Rightarrow> connection \<Rightarrow> outcome" where
  "createPeerConnection br c =
     (if \<not> create_pc_ok br then Threw ''RTCPeerConnection'' c
      else
        (let c1 = emit EngineCreated c;
             c2 = (if (sends_video c \<or> enabled (video (options c)))
                      \<and> isVideoCodecSpecified c \<and> \<not> has_setCodecPreferences br
                   then c1\<lparr>removeCodec := True\<rparr> else c1)
         in Done (c2\<lparr>pc := Some \<lparr>signaling_closed = False, ice_handler = True\<rparr>\<rparr>)))"

definition sendOffer :: "browser \<Rightarrow> connection \<Rightarrow> outcome" where
  "sendOffer br c =
     (if pc c = None then Done c
      else if \<not> create_offer_ok br then Threw ''createOffer'' c
      else if \<not> set_local_ok br then Threw ''setLocalDescription'' c
      else sendWs OfferSdp c)"

definition createAnswer :: "browser \<Rightarrow> connection \<Rightarrow> outcome" where
  "createAnswer br c =
     (if pc c = None then Done c
      else catch
        (if \<not> create_answer_ok br then Threw ''createAnswer'' c
         else if \<not> set_local_ok br then Threw ''setLocalDescription'' c
         else sendWs AnswerSdp c)
        (\<lambda>c. and_then (disconnect br c) (fire_disconnect CREATE_ANSWER_ERROR)))"

definition setAnswer :: "browser \<Rightarrow> connection \<Rightarrow> outcome" where
  "setAnswer br c =
     (if pc c = None then Threw ''TypeError: this._pc is null'' c
      else if \<not> set_remote_ok br then Threw ''setRemoteDescription'' c
      else Done c)"

definition setOffer :: "browser \<Rightarrow> connection \<Rightarrow> outcome" where
  "setOffer br c =
     and_then (createPeerConnection br c)
       (\<lambda>c. catch
          (if \<not> set_remote_ok br then Threw ''setRemoteDescription'' c
           else createAnswer br c)
          (\<lambda>c. and_then (disconnect br c) (fire_disconnect SET_OFFER_ERROR)))"

text \<open>\<^verbatim>\<open>_addIceCandidate\<close>: a candidate the engine refuses is logged and dropped.\<close>

definition addIceCandidate :: "browser \<Rightarrow> connection \<Rightarrow> outcome" where
  "addIceCandidate br c = Done c"

definition set_onclose :: "close_handler \<Rightarrow> connection \<Rightarrow> connection" where
  "set_onclose h c =
     (case obj (ws c) of None \<Rightarrow> c | Some w \<Rightarrow> c\<lparr>ws := Holds (w\<lparr>onclose := h\<rparr>)\<rparr>)"

text \<open>The branches of the \<^verbatim>\<open>onmessage\<close> closure for \<^verbatim>\<open>accept\<close>, \<^verbatim>\<open>reject\<close> and
  \<^verbatim>\<open>candidate\<close>, and the choice of the branch by \<^verbatim>\<open>message.type\<close>, all inside its
  \<^verbatim>\<open>try\<close>. In the candidate branch \<^verbatim>\<open>new RTCIceCandidate\<close> is called before
  \<^verbatim>\<open>_addIceCandidate\<close> and outside its own \<^verbatim>\<open>try\<close>.\<close>

definition on_accept :: "browser \<Rightarrow> message \<Rightarrow> connection \<Rightarrow> outcome" where
  "on_accept br m c =
     and_then (if pc c = None then createPeerConnection br c else Done c)
       (\<lambda>c. and_then (addDataChannel ''dataChannel'' br c)
       (\<lambda>c. and_then (sendOffer br c)
       (\<lambda>c. and_then (fire ''connect'' (\<lambda>cb. FiredConnect cb (authzMetadata m)) c)
       (\<lambda>c. Done (emit ConnectResolved (set_onclose CloseTearsDownTagged c))))))"

definition on_reject :: "browser \<Rightarrow> connection \<Rightarrow> outcome" where
  "on_reject br c =
     and_then (disconnect br c)
       (\<lambda>c. and_then (fire_disconnect REJECTED c)
       (\<lambda>c. Done (emit (ConnectRejected ''REJECTED'') c)))"

definition on_candidate :: "browser \<Rightarrow> message \<Rightarrow> connection \<Rightarrow> outcome" where
  "on_candidate br m c =
     (case ice m of
        Absent \<Rightarrow> Done c
      | Unusable \<Rightarrow> Threw ''TypeError: RTCIceCandidate'' c
      | Usable k \<Rightarrow> detached (addIceCandidate br c))"

definition dispatch :: "browser \<Rightarrow> message \<Rightarrow> connection \<Rightarrow> outcome" where
  "dispatch br m c =
     (if msg_type m = ''ping'' then sendWs Pong c
      else if msg_type m = ''close'' then fire ''close'' FiredClose c
      else if msg_type m = ''accept'' then on_accept br m c
      else if msg_type m = ''reject'' then on_reject br c
      else if msg_type m = ''offer'' then detached (setOffer br c)
      else if msg_type m = ''answer'' then setAnswer br c
      else if msg_type m = ''candidate'' then on_candidate br m c
      else Done c)"

text \<open>The \<^verbatim>\<open>catch\<close> block of the closure.\<close>

definition signaling_error :: "browser \<Rightarrow> connection \<Rightarrow> outcome" where
  "signaling_error br c = and_then (disconnect br c) (fire_disconnect SIGNALING_ERROR)"

definition onmessage :: "browser \<Rightarrow> ws_data \<Rightarrow> connection \<Rightarrow> outcome" where
  "onmessage br d c =
     (case d of
        Binary \<Rightarrow> Done c
      | Text p \<Rightarrow>
          catch
            (case p of
               Malformed \<Rightarrow> Threw ''SyntaxError'' c
             | JsonNull \<Rightarrow> Threw ''TypeError: message is null'' c
             | Json m \<Rightarrow> dispatch br m c)
            (signaling_error br))"

definition onopen :: "connection \<Rightarrow> outcome" where
  "onopen c =
     and_then (sendWs (Register (roomId c) (clientId (options c)) (authnMetadata c)) c)
       (\<lambda>c. Done (case obj (ws c) of None \<Rightarrow> c
                     | Some w \<Rightarrow> c\<lparr>ws := Holds (w\<lparr>onmessage_set := True\<rparr>)\<rparr>))"

text \<open>The \<^verbatim>\<open>onerror\<close> and \<^verbatim>\<open>onclose\<close> closures when no teardown is waiting.\<close>

definition onerror :: "browser \<Rightarrow> connection \<Rightarrow> outcome" where
  "onerror br c = onerror_by (disconnect br) c"

definition run_onclose :: "browser \<Rightarrow> close_handler \<Rightarrow> nat \<Rightarrow> connection \<Rightarrow> outcome" where
  "run_onclose br h ev c = run_onclose_by (disconnect br) h ev c"

text \<open>\<^verbatim>\<open>_signaling\<close> up to the point where its promise is left pending, and
  \<^verbatim>\<open>connect\<close>, which awaits it.\<close>

definition signaling :: "browser \<Rightarrow> connection \<Rightarrow> outcome" where
  "signaling br c =
     (if obj (ws c) \<noteq> None then Threw ''WebSocket Connnection Already Exists!'' c
      else if \<not> url_ok br then Threw ''SyntaxError'' c
      else
        (let c1 = c\<lparr>ws := Holds \<lparr>readyState = CONNECTING, onclose = CloseRejects,
                                  onmessage_set = False, failing = False\<rparr>\<rparr>
         in Waiting (set_onclose CloseTearsDown c1)))"

definition connect :: "browser \<Rightarrow> local_stream option \<Rightarrow> metadata option \<Rightarrow> connection \<Rightarrow> outcome" where
  "connect br st meta c =
     (if obj (ws c) \<noteq> None \<or> pc c \<noteq> None then Threw ''Connection Already Exists!'' c
      else signaling br (c\<lparr>stream := st, authnMetadata := meta\<rparr>))"

section \<open>Events\<close>

text \<open>The handlers \<^verbatim>\<open>_createPeerConnection\<close> puts on the peer connection.\<close>

definition oniceconnectionstatechange :: "browser \<Rightarrow> string \<Rightarrow> connection \<Rightarrow> outcome" where
  "oniceconnectionstatechange br st c =
     (if st = ''connected'' then Done (c\<lparr>isNegotiating := False\<rparr>)
      else if st = ''failed'' then
        and_then (disconnect br c) (fire_disconnect ICE_CONNECTION_STATE_FAILED)
      else Done c)"

definition ontrack :: "nat \<Rightarrow> connection \<Rightarrow> outcome" where
  "ontrack sid c = fire ''addstream'' (\<lambda>cb. FiredAddstream cb sid) (c\<lparr>remoteStreamId := Holds sid\<rparr>)"

definition onicecandidate :: "nat option \<Rightarrow> connection \<Rightarrow> outcome" where
  "onicecandidate cand c =
     (case cand of None \<Rightarrow> Done c | Some k \<Rightarrow> sendWs (IceCandidate k) c)"

text \<open>
  What can happen to a Connection: a call of the public API, or an event the browser
  delivers to a handler. An event of the socket needs the socket, in a readyState in
  which the browser delivers it; an event of the peer connection or of a channel that
  opens needs a peer connection that is not closed.
\<close>

datatype event =
    CallOn string callback
  | CallConnect "local_stream option" "metadata option"
  | CallDisconnect
  | CallAddDataChannel string
  | CallSendData payload string
  | SocketOpens
  | SocketMessage ws_data
  | SocketFails nat
  | SocketCloses nat
  | IceConnectionState string
  | LocalCandidate "nat option"
  | Track nat
  | RemoteChannel data_channel
  | ChannelOpens data_channel
  | ChannelCloses string
  | ChannelErrors string
  | ChannelMessage string payload
  | ChannelState nat channel_state

definition socket_opens :: "connection \<Rightarrow> connection" where
  "socket_opens c =
     (case obj (ws c) of
        None \<Rightarrow> c
      | Some w \<Rightarrow>
          if readyState w = CONNECTING
          then settle (onopen (c\<lparr>ws := Holds (w\<lparr>readyState := OPEN\<rparr>)\<rparr>))
          else c)"

definition socket_message :: "browser \<Rightarrow> ws_data \<Rightarrow> connection \<Rightarrow> connection" where
  "socket_message br d c =
     (case obj (ws c) of
        None \<Rightarrow> c
      | Some w \<Rightarrow>
          if onmessage_set w \<and> (readyState w = OPEN \<or> readyState w = CLOSING)
          then settle (onmessage br d c)
          else c)"

text \<open>
  The connection of the socket fails: in one task the browser sets readyState to 3,
  fires \<^verbatim>\<open>error\<close> and then \<^verbatim>\<open>close\<close>. The \<^verbatim>\<open>onerror\<close> closure runs
  \<^verbatim>\<open>disconnect()\<close> up to its \<^verbatim>\<open>await\<close>. When nothing is left to wait for, its rest
  runs before the \<^verbatim>\<open>close\<close> event; otherwise the \<^verbatim>\<open>onclose\<close> closure runs first,
  while the teardown that \<^verbatim>\<open>onerror\<close> started waits for its timer.
\<close>

definition socket_fails :: "browser \<Rightarrow> nat \<Rightarrow> connection \<Rightarrow> connection" where
  "socket_fails br ev c =
     (case obj (ws c) of
        None \<Rightarrow> c
      | Some w \<Rightarrow>
          if readyState w = CLOSED then c
          else
            (let (t1, c1) = disconnect_begin br (socket_reaches_closed c)
             in if promise_all t1 = Resolved
                then settle (run_onclose br (onclose w) ev
                       (emit (ConnectRejected ''WS-CLOSED'') (disconnect_finish c1)))
                else
                  (let c2 = settle (run_onclose br (onclose w) ev c1);
                       (r, c3) = await_closed br (closes_after br) t1 c2
                   in case r of
                        Resolved \<Rightarrow> emit (ConnectRejected ''WS-CLOSED'') (disconnect_finish c3)
                      | Rejected e \<Rightarrow> emit (Unhandled e) c3
                      | Pending \<Rightarrow> c3)))"

text \<open>The socket is closed without a failure; a socket that was closed while connecting
  counts as failed.\<close>

definition socket_closes :: "browser \<Rightarrow> nat \<Rightarrow> connection \<Rightarrow> connection" where
  "socket_closes br ev c =
     (case obj (ws c) of
        None \<Rightarrow> c
      | Some w \<Rightarrow>
          if readyState w = CLOSED then c
          else if failing w then socket_fails br ev c
          else settle (run_onclose br (onclose w) ev (socket_reaches_closed c)))"

text \<open>The registry holds the channel objects themselves: when the browser changes the
  readyState of a registered channel (the \<open>i\<close>-th one), no handler runs, and the entry
  shows the new state.\<close>

definition channel_state_changes :: "nat \<Rightarrow> channel_state \<Rightarrow> connection \<Rightarrow> connection" where
  "channel_state_changes i st c =
     (if i < length (dataChannels c)
      then c\<lparr>dataChannels := (dataChannels c)[i := (dataChannels c ! i)\<lparr>chan_state := st\<rparr>]\<rparr>
      else c)"

definition pc_live :: "connection \<Rightarrow> bool" where
  "pc_live c \<longleftrightarrow> (case pc c of None \<Rightarrow> False | Some p \<Rightarrow> \<not> signaling_closed p)"

definition ice_live :: "connection \<Rightarrow> bool" where
  "ice_live c \<longleftrightarrow> (case pc c of None \<Rightarrow> False | Some p \<Rightarrow> ice_handler p)"

fun step :: "browser \<Rightarrow> event \<Rightarrow> connection \<Rightarrow> connection" where
  "step br (CallOn kind cb) c = state_of (on kind cb c)"
| "step br (CallConnect st meta) c = state_of (connect br st meta c)"
| "step br CallDisconnect c = state_of (disconnect br c)"
| "step br (CallAddDataChannel channelId) c = state_of (addDataChannel channelId br c)"
| "step br (CallSendData params channelId) c = state_of (sendData params channelId c)"
| "step br SocketOpens c = socket_opens c"
| "step br (SocketMessage d) c = socket_message br d c"
| "step br (SocketFails ev) c = socket_fails br ev c"
| "step br (SocketCloses ev) c = socket_closes br ev c"
| "step br (IceConnectionState st) c =
     (if ice_live c then settle (oniceconnectionstatechange br st c) else c)"
| "step br (LocalCandidate cand) c = (if pc_live c then settle (onicecandidate cand c) else c)"
| "step br (Track sid) c = (if pc_live c then settle (ontrack sid c) else c)"
| "step br (RemoteChannel d) c = (if pc_live c then onDataChannel d c else c)"
| "step br (ChannelOpens d) c = (if pc_live c then channel_onopen d c else c)"
| "step br (ChannelCloses channelId) c = channel_onclose channelId c"
| "step br (ChannelErrors channelId) c = channel_onerror channelId c"
| "step br (ChannelMessage channelId p) c = settle (channel_onmessage channelId p c)"
| "step br (ChannelState i st) c = channel_state_changes i st c"

text \<open>A history: each event with what the browser does during it.\<close>

fun run :: "(browser \<times> event) list \<Rightarrow> connection \<Rightarrow> connection" where
  "run [] c = c"
| "run ((br, e) # es) c = run es (step br e c)"

section \<open>Example inputs\<close>

text \<open>\<^verbatim>\<open>defaultOptions\<close> of \<^verbatim>\<open>ayame.js\<close>, for a given random client id.\<close>

definition defaultOptions :: "string \<Rightarrow> connection_options" where
  "defaultOptions cid =
     \<lparr> audio = \<lparr>direction = Sendrecv, enabled = True, codec = Null\<rparr>,
       video = \<lparr>direction = Sendrecv, enabled = True, codec = Null\<rparr>,
       clientId = cid \<rparr>"

text \<open>A browser other than Safari in which every engine call succeeds and a closing
  socket completes its handshake before the first poll.\<close>

definition chrome :: browser where
  "chrome =
     \<lparr> safari = False, url_ok = True, has_setCodecPreferences = True, create_pc_ok = True,
       create_channel_ok = True, create_offer_ok = True, set_local_ok = True,
       set_remote_ok = True, create_answer_ok = True, closes_after = [Closes] \<rparr>"

definition fresh :: connection where
  "fresh = Connection ''wss://example.com/signaling'' ''room'' (defaultOptions ''client'') False"

definition camera :: local_stream where
  "camera = \<lparr>stream_id = 7, has_audio = True, has_video = True\<rparr>"

definition msg :: "string \<Rightarrow> ws_data" where
  "msg ty = Text (Json \<lparr>msg_type = ty, authzMetadata = None, ice = Absent\<rparr>)"

text \<open>\<^verbatim>\<open>connect\<close> has been called and the socket is still connecting.\<close>

definition connecting :: connection where
  "connecting = run [(chrome, CallConnect (Some camera) None)] fresh"

text \<open>A session that waits for the server's answer to its register message.\<close>

definition registering :: connection where
  "registering =
     run [(chrome, CallConnect (Some camera) None), (chrome, SocketOpens)] fresh"

text \<open>An established session: \<^verbatim>\<open>connect\<close>, the socket opens, the server accepts.\<close>

definition connected :: connection where
  "connected =
     run [(chrome, CallConnect (Some camera) None), (chrome, SocketOpens),
          (chrome, SocketMessage (msg ''accept''))] fresh"

text \<open>An established session after \<^verbatim>\<open>disconnect()\<close>.\<close>

definition closed_down :: connection where
  "closed_down = state_of (disconnect chrome connected)"

text \<open>
  After register the server forwards an offer of the remote side (which creates the
  peer connection and is answered), and the remote side opens a channel labelled
  \<open>dataChannel\<close>.
\<close>

definition remote_channel :: data_channel where
  "remote_channel = \<lparr>label = ''dataChannel'', chan_state = ChOpen\<rparr>"

definition offered :: connection where
  "offered =
     run [(chrome, CallConnect (Some camera) None), (chrome, SocketOpens),
          (chrome, SocketMessage (msg ''offer''))] fresh"

definition offered_with_channel :: connection where
  "offered_with_channel = run [(chrome, RemoteChannel remote_channel)] offered"

text \<open>
  On an established session the application asks twice for a channel labelled \<open>x\<close>
  before either is open (neither is in the registry yet, so both calls succeed). The
  first channel opens and then starts closing; the second one opens.
\<close>

definition channel_x :: data_channel where
  "channel_x = \<lparr>label = ''x'', chan_state = ChConnecting\<rparr>"

definition two_channels :: connection where
  "two_channels =
     run [(chrome, CallAddDataChannel ''x''), (chrome, CallAddDataChannel ''x''),
          (chrome, ChannelOpens channel_x), (chrome, ChannelState 0 ChClosing),
          (chrome, ChannelOpens channel_x)] connected"

text \<open>\<^verbatim>\<open>connect\<close> with a URL that \<^verbatim>\<open>new WebSocket\<close> refuses: the stream is stored, no
  socket exists.\<close>

definition stranded :: connection where
  "stranded = state_of (connect (chrome\<lparr>url_ok := False\<rparr>) (Some camera) None fresh)"

text \<open>Two calls of \<^verbatim>\<open>disconnect()\<close> on an established session, the second made before
  the first has finished: each up to its \<^verbatim>\<open>await\<close>.\<close>

definition first_call :: "teardown \<times> connection" where
  "first_call = disconnect_begin chrome connected"

definition second_call :: "teardown \<times> connection" where
  "second_call = disconnect_begin chrome (snd first_call)"

section \<open>Properties of the teardown\<close>

text \<open>
  The first thing that happens to the closing socket is that its handshake completes,
  or is that its connection fails.
\<close>

definition closes_cleanly :: "browser \<Rightarrow> bool" where
  "closes_cleanly br \<longleftrightarrow> find (\<lambda>k. k \<noteq> Quiet) (closes_after br) = Some Closes"

definition fails_first :: "browser \<Rightarrow> bool" where
  "fails_first br \<longleftrightarrow> find (\<lambda>k. k \<noteq> Quiet) (closes_after br) = Some Fails"

text \<open>The socket of the Connection, if there is one, is open, closing or closed, and
  \<^verbatim>\<open>close()\<close> was not called on it while it was connecting.\<close>

definition past_connecting :: "connection \<Rightarrow> bool" where
  "past_connecting c \<longleftrightarrow>
     (case obj (ws c) of None \<Rightarrow> True
      | Some w \<Rightarrow> readyState w \<noteq> CONNECTING \<and> \<not> failing w)"

text \<open>
  The state of a teardown that nothing else interferes with: each of its two promises is
  resolved, or pending on a timer that will find its object (the peer connection already
  closed; the socket still there, not failing, its \<^verbatim>\<open>onclose\<close> replaced).
\<close>

definition settled_or_due :: "teardown \<Rightarrow> connection \<Rightarrow> bool" where
  "settled_or_due t c \<longleftrightarrow>
     (pc_closed t = Resolved \<or> (pc_closed t = Pending \<and> pc_poll c = Resolved)) \<and>
     (case obj (ws c) of
        None \<Rightarrow> ws_closed t = Resolved
      | Some w \<Rightarrow>
          (ws_closed t = Resolved \<and> readyState w = CLOSED) \<or>
          (ws_closed t = Pending \<and> \<not> failing w \<and> onclose w = CloseIgnored))"

text \<open>An outcome whose state has \<^verbatim>\<open>_isNegotiating\<close> false.\<close>

definition calm :: "outcome \<Rightarrow> bool" where
  "calm r \<longleftrightarrow> \<not> isNegotiating (state_of r)"

text \<open>
  An effect other than a frame sent, a call of the \<^verbatim>\<open>connect\<close> callback and the
  resolution of \<^verbatim>\<open>connect()\<close>; and a state that continues another one with such
  effects only.
\<close>

definition silent :: "effect \<Rightarrow> bool" where
  "silent e =
     (case e of Sent m \<Rightarrow> False | FiredConnect cb a \<Rightarrow> False | ConnectResolved \<Rightarrow> False
      | _ \<Rightarrow> True)"

definition quietly :: "connection \<Rightarrow> connection \<Rightarrow> bool" where
  "quietly c c' \<longleftrightarrow> (\<exists>es. effects c' = effects c @ es \<and> list_all silent es)"

definition cleared :: "connection \<Rightarrow> bool" where
  "cleared c \<longleftrightarrow> dataChannels c = [] \<and> pc c = None \<and> ws c = Null"

lemmas model_defs =
  fresh_def Connection_def chrome_def camera_def msg_def defaultOptions_def
  connect_def signaling_def set_onclose_def socket_opens_def onopen_def sendWs_def emit_def
  and_then_def catch_def settle_def detached_def socket_message_def onmessage_def dispatch_def
  on_accept_def on_reject_def on_candidate_def setOffer_def createAnswer_def setAnswer_def
  createPeerConnection_def sends_video_def isVideoCodecSpecified_def addDataChannel_def
  findDataChannel_def sendOffer_def fire_def initial_callbacks_def socket_fails_def
  socket_closes_def socket_reaches_closed_def disconnect_begin_def closePeerConnection_def
  closeWebSocketConnection_def stop_tracks_def promise_all_def run_onclose_def onerror_def
  run_onclose_by_def onerror_by_def nested_disconnect_def close_task_def interval_def
  disconnect_def disconnect_finish_def fire_disconnect_def polls_fire_def pc_poll_def
  ws_poll_def ws_close_def close_channel_def signaling_error_def connected_def stranded_def
  first_call_def second_call_def cleared_def registering_def two_channels_def channel_x_def
  connecting_def closed_down_def offered_def offered_with_channel_def remote_channel_def
  pc_live_def ice_live_def channel_onopen_def channel_state_changes_def sendData_def
  onDataChannel_def on_def js_in_def js_assign_def inherited_names_def
  object_prototype_names_def read_only_names_def

lemma await_closed_Resolved:
  "promise_all t = Resolved \<Longrightarrow> await_closed br sched t c = (Resolved, c)"
  by (cases sched) simp_all

lemma promise_all_due:
  "settled_or_due t c \<Longrightarrow> promise_all t = Resolved \<or> promise_all t = Pending"
  by (auto simp: settled_or_due_def promise_all_def split: promise.splits option.splits)

lemma finish_socket_reaches_closed:
  "disconnect_finish (socket_reaches_closed c) = disconnect_finish c"
  by (simp add: disconnect_finish_def socket_reaches_closed_def split: option.splits)

text \<open>For such a teardown the completed handshake only sets readyState to 3.\<close>

lemma interval_Closes_due:
  "settled_or_due t c \<Longrightarrow>
   interval br Closes c = c \<and> ws_poll c \<noteq> Pending \<or>
   interval br Closes c = socket_reaches_closed c"
  by (auto simp: settled_or_due_def interval_def close_task_def run_onclose_by_def
      settle_def ws_poll_def Let_def split: option.splits)

lemma polls_when_closed:
  "settled_or_due t c \<Longrightarrow> ws_poll c \<noteq> Pending \<Longrightarrow> promise_all (polls_fire c t) = Resolved"
  by (cases "obj (ws c)"; cases "pc_closed t"; cases "ws_closed t")
    (auto simp: settled_or_due_def promise_all_def polls_fire_def ws_poll_def split: if_splits)

lemma polls_after_reaching_closed:
  "settled_or_due t c \<Longrightarrow>
   promise_all (polls_fire (socket_reaches_closed c) t) = Resolved"
  by (cases "obj (ws c)"; cases "pc_closed t"; cases "ws_closed t")
    (auto simp: settled_or_due_def promise_all_def polls_fire_def ws_poll_def pc_poll_def
      socket_reaches_closed_def split: if_splits)

lemma polls_after_close:
  "settled_or_due t c \<Longrightarrow> promise_all (polls_fire (interval br Closes c) t) = Resolved"
  using interval_Closes_due [of t c br] polls_when_closed [of t c]
    polls_after_reaching_closed [of t c]
  by auto

lemma finish_after_close:
  "settled_or_due t c \<Longrightarrow> disconnect_finish (interval br Closes c) = disconnect_finish c"
  using interval_Closes_due [of t c br] by (auto simp: finish_socket_reaches_closed)

lemma polls_keep_due:
  "settled_or_due t c \<Longrightarrow> settled_or_due (polls_fire c t) c"
  by (auto simp: settled_or_due_def polls_fire_def pc_poll_def ws_poll_def
      split: option.splits promise.splits if_splits)

lemma await_closed_completes:
  "settled_or_due t c \<Longrightarrow> find (\<lambda>k. k \<noteq> Quiet) sched = Some Closes \<Longrightarrow>
   \<exists>c'. await_closed br sched t c = (Resolved, c') \<and> disconnect_finish c' = disconnect_finish c"
proof (induction sched arbitrary: t c)
  case Nil
  then show ?case by simp
next
  case (Cons k ks)
  show ?case
  proof (cases "promise_all t = Pending")
    case False
    with promise_all_due [OF Cons.prems(1)] have "promise_all t = Resolved" by simp
    then show ?thesis by (simp add: await_closed_Resolved)
  next
    case pending: True
    show ?thesis
    proof (cases k)
      case Quiet
      with Cons.prems(2) have "find (\<lambda>k. k \<noteq> Quiet) ks = Some Closes" by simp
      from Cons.IH [OF polls_keep_due [OF Cons.prems(1)] this] pending Quiet
      show ?thesis by (simp add: interval_def)
    next
      case Closes
      with pending polls_after_close [OF Cons.prems(1), of br]
        finish_after_close [OF Cons.prems(1), of br]
      show ?thesis by (simp add: await_closed_Resolved)
    next
      case Fails
      with Cons.prems(2) show ?thesis by simp
    qed
  qed
qed

lemma closePeerConnection_due:
  "closePeerConnection br c = (p, c2) \<Longrightarrow>
   (p = Resolved \<or> (p = Pending \<and> pc_poll c2 = Resolved)) \<and> ws c2 = ws c"
  by (cases "pc c") (auto simp: closePeerConnection_def pc_poll_def split: if_splits)

lemma closeWebSocketConnection_due:
  assumes "past_connecting c" and "closeWebSocketConnection c = (w, c3)"
  shows "(case obj (ws c3) of
            None \<Rightarrow> w = Resolved
          | Some s \<Rightarrow>
              (w = Resolved \<and> readyState s = CLOSED) \<or>
              (w = Pending \<and> \<not> failing s \<and> onclose s = CloseIgnored)) \<and>
         pc c3 = pc c"
proof (cases "obj (ws c)")
  case None
  with assms(2) show ?thesis by (auto simp: closeWebSocketConnection_def)
next
  case (Some s)
  with assms show ?thesis
    by (cases "readyState s")
      (auto simp: closeWebSocketConnection_def past_connecting_def ws_close_def)
qed

lemma begin_due:
  assumes "past_connecting c" and "disconnect_begin br c = (t, c1)"
  shows "settled_or_due t c1"
proof -
  let ?c1 = "c\<lparr>dataChannels := map close_channel (dataChannels c)\<rparr>"
  obtain p c2 where p: "closePeerConnection br ?c1 = (p, c2)"
    by (cases "closePeerConnection br ?c1")
  obtain w c3 where w: "closeWebSocketConnection c2 = (w, c3)"
    by (cases "closeWebSocketConnection c2")
  from closePeerConnection_due [OF p]
  have pd: "p = Resolved \<or> (p = Pending \<and> pc_poll c2 = Resolved)" and "ws c2 = ws c"
    by simp_all
  with assms(1) have "past_connecting c2" by (simp add: past_connecting_def)
  from closeWebSocketConnection_due [OF this w]
  have wd: "case obj (ws c3) of
            None \<Rightarrow> w = Resolved
          | Some s \<Rightarrow>
              (w = Resolved \<and> readyState s = CLOSED) \<or>
              (w = Pending \<and> \<not> failing s \<and> onclose s = CloseIgnored)"
    and "pc c3 = pc c2" by simp_all
  with pd have pd3: "p = Resolved \<or> (p = Pending \<and> pc_poll c3 = Resolved)"
    by (simp add: pc_poll_def)
  from assms(2) p w
  have t: "t = \<lparr>ws_closed = w, pc_closed = p\<rparr>" and "ws c1 = ws c3" and "pc c1 = pc c3"
    by (auto simp: disconnect_begin_def stop_tracks_def emit_def split: option.splits)
  with pd3 wd show ?thesis
    by (cases "obj (ws c3)") (simp_all add: settled_or_due_def pc_poll_def)
qed

lemma disconnect_completes:
  assumes "past_connecting c" and "closes_cleanly br"
  shows "disconnect br c = Done (disconnect_finish (snd (disconnect_begin br c)))"
proof -
  obtain t c1 where b: "disconnect_begin br c = (t, c1)" by (cases "disconnect_begin br c")
  from assms(2) have "find (\<lambda>k. k \<noteq> Quiet) (closes_after br) = Some Closes"
    by (simp add: closes_cleanly_def)
  from await_closed_completes [OF begin_due [OF assms(1) b] this, of br]
  obtain c' where "await_closed br (closes_after br) t c1 = (Resolved, c')"
    and "disconnect_finish c' = disconnect_finish c1" by blast
  with b show ?thesis by (simp add: disconnect_def)
qed

lemma await_closed_not_Rejected:
  "settled_or_due t c \<Longrightarrow> find (\<lambda>k. k \<noteq> Quiet) sched \<noteq> Some Fails \<Longrightarrow>
   fst (await_closed br sched t c) \<noteq> Rejected e"
proof (induction sched arbitrary: t c)
  case Nil
  with promise_all_due [OF Nil(1)] show ?case by auto
next
  case (Cons k ks)
  show ?case
  proof (cases "promise_all t = Pending")
    case False
    with promise_all_due [OF Cons.prems(1)] show ?thesis by auto
  next
    case pending: True
    show ?thesis
    proof (cases k)
      case Quiet
      with Cons.prems(2) have "find (\<lambda>k. k \<noteq> Quiet) ks \<noteq> Some Fails" by simp
      from Cons.IH [OF polls_keep_due [OF Cons.prems(1)] this] pending Quiet
      show ?thesis by (simp add: interval_def)
    next
      case Closes
      with pending polls_after_close [OF Cons.prems(1), of br] show ?thesis
        by (simp add: await_closed_Resolved)
    next
      case Fails
      with Cons.prems(2) show ?thesis by simp
    qed
  qed
qed

lemma disconnect_not_Threw:
  assumes "past_connecting c" and "\<not> fails_first br"
  shows "disconnect br c \<noteq> Threw e c'"
proof -
  obtain t c1 where b: "disconnect_begin br c = (t, c1)" by (cases "disconnect_begin br c")
  obtain r c2 where a: "await_closed br (closes_after br) t c1 = (r, c2)"
    by (cases "await_closed br (closes_after br) t c1")
  from assms(2) have "find (\<lambda>k. k \<noteq> Quiet) (closes_after br) \<noteq> Some Fails"
    by (simp add: fails_first_def)
  from await_closed_not_Rejected [OF begin_due [OF assms(1) b] this, of br] a
  have "\<And>e. r \<noteq> Rejected e" by simp
  with a b show ?thesis by (auto simp: disconnect_def split: promise.splits)
qed

lemma disconnect_Done_cleared: "disconnect br c = Done c' \<Longrightarrow> cleared c'"
  by (auto simp: disconnect_def cleared_def disconnect_finish_def Let_def
      split: prod.splits promise.splits)

lemma fire_cleared: "fire k mk c = Done c' \<Longrightarrow> cleared c \<Longrightarrow> cleared c'"
  by (auto simp: fire_def emit_def cleared_def split: option.splits)

lemma teardown_then_fire:
  "and_then (disconnect br c) (fire_disconnect r) = Done c' \<Longrightarrow> cleared c'"
  by (auto simp: and_then_def fire_disconnect_def split: outcome.splits
      dest: disconnect_Done_cleared fire_cleared)

lemma idle_disconnect:
  "obj (ws c) = None \<Longrightarrow> pc c = None \<Longrightarrow> dataChannels c = [] \<Longrightarrow>
   disconnect br c =
     Done ((stop_tracks c)\<lparr>remoteStreamId := Null, stream := None, authnMetadata := None,
             isNegotiating := False, removeCodec := False, ws := Null\<rparr>)"
  by (simp add: disconnect_def disconnect_begin_def closePeerConnection_def
      closeWebSocketConnection_def promise_all_def await_closed_Resolved disconnect_finish_def
      stop_tracks_def emit_def split: option.splits)

lemma finished_is_fixed:
  "disconnect br' (disconnect_finish (snd (disconnect_begin br c))) =
     Done (disconnect_finish (snd (disconnect_begin br c)))"
  by (simp add: idle_disconnect disconnect_finish_def disconnect_begin_def stop_tracks_def
      emit_def closePeerConnection_def closeWebSocketConnection_def Let_def
      split: option.splits prod.splits)

text \<open>
  What a failing socket does to an established session: the teardown started by
  \<^verbatim>\<open>onerror\<close> is overtaken by the one \<^verbatim>\<open>onclose\<close> starts, and ends in the rejection
  of its poll.
\<close>

lemma failure_overlap:
  "effects (socket_fails chrome 0 connected) =
     effects connected @ [TracksStopped 7, FiredDisconnect Noop (WS_CLOSED 0),
       Unhandled ''PeerConnection Closing Error'']"
  by (simp add: model_defs)

text \<open>
  \<^verbatim>\<open>disconnect()\<close> while the socket is still connecting: \<^verbatim>\<open>close()\<close> fails the
  connection, the browser fires \<^verbatim>\<open>error\<close>, the \<^verbatim>\<open>onerror\<close> closure runs a second
  \<^verbatim>\<open>disconnect()\<close>, which sets \<^verbatim>\<open>_ws\<close> to null, and the poll of the first one rejects.
\<close>

lemma connecting_teardown:
  "disconnect chrome connecting =
     Threw ''WebSocket Closing Error''
       (fresh\<lparr>ws := Null, remoteStreamId := Null,
          effects := [TracksStopped 7, ConnectRejected ''WS-CLOSED'']\<rparr>)"
  by (simp add: model_defs)

text \<open>
  The \<^verbatim>\<open>disconnect()\<close> that a handler starts when the socket of a waiting teardown
  reaches CLOSED never waits itself: the waiting teardown has closed the peer
  connection, and the socket is closed.
\<close>

lemma begin_closes_pc:
  "case pc (snd (disconnect_begin br c)) of None \<Rightarrow> True | Some p \<Rightarrow> signaling_closed p"
proof -
  let ?c1 = "c\<lparr>dataChannels := map close_channel (dataChannels c)\<rparr>"
  obtain p c2 where p: "closePeerConnection br ?c1 = (p, c2)"
    by (cases "closePeerConnection br ?c1")
  obtain w c3 where w: "closeWebSocketConnection c2 = (w, c3)"
    by (cases "closeWebSocketConnection c2")
  from p have "case pc c2 of None \<Rightarrow> True | Some q \<Rightarrow> signaling_closed q"
    by (cases "pc c") (auto simp: closePeerConnection_def split: if_splits)
  moreover from w have "pc c3 = pc c2"
    by (cases "obj (ws c2)") (auto simp: closeWebSocketConnection_def split: if_splits)
  moreover from p w have "pc (snd (disconnect_begin br c)) = pc c3"
    by (simp add: disconnect_begin_def stop_tracks_def emit_def split: option.splits)
  ultimately show ?thesis by simp
qed

lemma begin_nothing_to_wait_for:
  assumes "case pc c of None \<Rightarrow> True | Some p \<Rightarrow> signaling_closed p"
    and "case obj (ws c) of None \<Rightarrow> True | Some w \<Rightarrow> readyState w = CLOSED"
  shows "promise_all (fst (disconnect_begin br c)) = Resolved"
proof -
  let ?c1 = "c\<lparr>dataChannels := map close_channel (dataChannels c)\<rparr>"
  from assms(1) have p: "closePeerConnection br ?c1 = (Resolved, ?c1) \<or>
      closePeerConnection br ?c1 = (Resolved, ?c1\<lparr>pc := None\<rparr>)"
    by (cases "pc c") (auto simp: closePeerConnection_def)
  from assms(2) have "closeWebSocketConnection ?c1 = (Resolved, ?c1)"
    and "closeWebSocketConnection (?c1\<lparr>pc := None\<rparr>) = (Resolved, ?c1\<lparr>pc := None\<rparr>)"
    by (cases "obj (ws c)"; simp add: closeWebSocketConnection_def)+
  with p show ?thesis
    by (auto simp: disconnect_begin_def promise_all_def)
qed

lemma nested_runs_to_end:
  "\<exists>c'. nested_disconnect br' (socket_reaches_closed (snd (disconnect_begin br c))) = Done c'"
proof -
  let ?c = "socket_reaches_closed (snd (disconnect_begin br c))"
  from begin_closes_pc [of br c]
  have "case pc ?c of None \<Rightarrow> True | Some p \<Rightarrow> signaling_closed p"
    by (simp add: socket_reaches_closed_def split: option.splits)
  moreover have "case obj (ws ?c) of None \<Rightarrow> True | Some w \<Rightarrow> readyState w = CLOSED"
    by (simp add: socket_reaches_closed_def split: option.splits)
  ultimately have r: "promise_all (fst (disconnect_begin br' ?c)) = Resolved"
    by (rule begin_nothing_to_wait_for)
  obtain t c1 where b: "disconnect_begin br' ?c = (t, c1)"
    by (cases "disconnect_begin br' ?c")
  with r show ?thesis by (simp add: nested_disconnect_def)
qed

section \<open>C1: \<^verbatim>\<open>disconnect()\<close> twice, and from Idle\<close>

text \<open>
  C1, as the code has it by design. Take a Connection whose socket, if it has one, is
  past connecting, and a \<^verbatim>\<open>disconnect()\<close> during which no other call or event runs.
  Unless the connection of the closing socket fails, it does not throw. When the closing
  handshake of the socket completes, it completes, and a further \<^verbatim>\<open>disconnect()\<close> on the
  state it leaves, in any browser, completes and leaves that state as it is. From a
  Connection without socket, peer connection and data channels it completes whatever
  the browser does, and the state it leaves is the one it found with the tracks of a
  remaining local stream stopped, \<^verbatim>\<open>stream\<close>, \<^verbatim>\<open>authnMetadata\<close>, \<^verbatim>\<open>_isNegotiating\<close> and
  \<^verbatim>\<open>_removeCodec\<close> reset, and \<^verbatim>\<open>_ws\<close> and \<^verbatim>\<open>remoteStreamId\<close> null. (What
  \<^verbatim>\<open>disconnect()\<close> does while the socket is still connecting, or when the connection
  fails during the wait, is not part of this statement.)
\<close>

theorem disconnect_alone:
  "(past_connecting c \<and> closes_cleanly br \<longrightarrow>
      (\<exists>c'. disconnect br c = Done c' \<and> (\<forall>br'. disconnect br' c' = Done c'))) \<and>
   (obj (ws c) = None \<and> pc c = None \<and> dataChannels c = [] \<longrightarrow>
      disconnect br c =
        Done ((stop_tracks c)\<lparr>remoteStreamId := Null, stream := None, authnMetadata := None,
                isNegotiating := False, removeCodec := False, ws := Null\<rparr>)) \<and>
   (past_connecting c \<and> \<not> fails_first br \<longrightarrow> (\<forall>e c'. disconnect br c \<noteq> Threw e c'))"
  using disconnect_completes [of c br] finished_is_fixed [of _ br c]
  by (simp add: idle_disconnect disconnect_not_Threw)

text \<open>
  C1 as amended, on an established session and on the state its teardown leaves: the
  first \<^verbatim>\<open>disconnect()\<close> completes, the second one changes nothing.
\<close>

theorem disconnect_alone_witness:
  "past_connecting connected \<and> closes_cleanly chrome \<and> \<not> fails_first chrome \<and>
   disconnect chrome connected = Done closed_down \<and>
   obj (ws closed_down) = None \<and> pc closed_down = None \<and> dataChannels closed_down = [] \<and>
   disconnect chrome closed_down = Done closed_down"
proof -
  have p: "past_connecting connected"
    by (simp add: past_connecting_def model_defs)
  have h: "closes_cleanly chrome" and n: "\<not> fails_first chrome"
    by (simp_all add: closes_cleanly_def fails_first_def chrome_def)
  from p h disconnect_alone [of connected chrome]
  obtain c' where 1: "disconnect chrome connected = Done c'"
    and 2: "\<forall>br'. disconnect br' c' = Done c'" by blast
  from 1 have e: "closed_down = c'" by (simp add: closed_down_def)
  from 1 have "cleared c'" by (rule disconnect_Done_cleared)
  then have "obj (ws c') = None \<and> pc c' = None \<and> dataChannels c' = []"
    by (simp add: cleared_def)
  with p h n 1 2 e show ?thesis by simp
qed

text \<open>
  C1 as stated fails. A \<^verbatim>\<open>disconnect()\<close> called on an established session while an
  earlier one is still waiting is rejected: once the socket is closed the timers of the
  first call resolve it, its last part sets \<^verbatim>\<open>_ws\<close> to null, and the timer of the
  second call then finds no socket. From a Connection without socket, peer connection
  and data channels that still holds a local stream, \<^verbatim>\<open>disconnect()\<close> does not leave the
  state as it was; nor does it on a Connection just constructed, whose \<^verbatim>\<open>_ws\<close> and
  \<^verbatim>\<open>remoteStreamId\<close> it turns from undefined into null.
\<close>

theorem disconnect_counterexample:
  "promise_all (polls_fire (interval chrome Closes (snd second_call)) (fst first_call)) =
     Resolved \<and>
   promise_all (polls_fire (disconnect_finish (interval chrome Closes (snd second_call)))
     (fst second_call)) = Rejected ''WebSocket Closing Error'' \<and>
   obj (ws stranded) = None \<and> pc stranded = None \<and> dataChannels stranded = [] \<and>
   disconnect chrome stranded \<noteq> Done stranded \<and>
   disconnect chrome fresh \<noteq> Done fresh"
  by (simp add: model_defs)

section \<open>C7: what a completed teardown leaves\<close>

text \<open>
  C7. Whenever a teardown completes, the data-channel registry is empty and the peer
  connection and the socket of the Connection are null: for a call of \<^verbatim>\<open>disconnect()\<close>,
  and for the handlers that tear down and then complete: a reject message, a close
  message (on a callback table without a \<^verbatim>\<open>close\<close> entry, as every table is), a
  message that does not parse, an error of the socket, the closing of the socket, and the
  failed state of the engine.
\<close>

theorem teardown_clears:
  "(disconnect br c = Done c' \<longrightarrow> cleared c') \<and>
   (msg_type m = ''reject'' \<and> onmessage br (Text (Json m)) c = Done c' \<longrightarrow> cleared c') \<and>
   (msg_type m = ''close'' \<and> callbacks c ''close'' = None \<and>
      onmessage br (Text (Json m)) c = Done c' \<longrightarrow> cleared c') \<and>
   (onmessage br (Text Malformed) c = Done c' \<longrightarrow> cleared c') \<and>
   (onerror br c = Done c' \<longrightarrow> cleared c') \<and>
   ((h = CloseTearsDown \<or> h = CloseTearsDownTagged) \<and> run_onclose br h ev c = Done c'
      \<longrightarrow> cleared c') \<and>
   (oniceconnectionstatechange br ''failed'' c = Done c' \<longrightarrow> cleared c')"
proof -
  have a: "\<And>r. and_then (disconnect br c) (fire_disconnect r) = Done c' \<Longrightarrow> cleared c'"
    by (rule teardown_then_fire)
  have "msg_type m = ''reject'' \<Longrightarrow> onmessage br (Text (Json m)) c = Done c' \<Longrightarrow> cleared c'"
  proof -
    assume m: "msg_type m = ''reject''" and d: "onmessage br (Text (Json m)) c = Done c'"
    show "cleared c'"
    proof (cases "disconnect br c")
      case (Done c1)
      then have c1: "cleared c1" by (rule disconnect_Done_cleared)
      show ?thesis
      proof (cases "fire_disconnect REJECTED c1")
        case fired: (Done c2)
        with c1 have "cleared c2" unfolding fire_disconnect_def by (rule fire_cleared [rotated])
        with m d Done fired show ?thesis
          by (auto simp: onmessage_def dispatch_def on_reject_def catch_def and_then_def
              emit_def cleared_def)
      next
        case (Threw e c2)
        with m d Done a [of SIGNALING_ERROR] teardown_then_fire [of br c2 SIGNALING_ERROR c']
        show ?thesis
          by (simp add: onmessage_def dispatch_def on_reject_def catch_def and_then_def
              signaling_error_def)
      next
        case (Waiting c2)
        with m d Done show ?thesis
          by (simp add: onmessage_def dispatch_def on_reject_def catch_def and_then_def)
      qed
    next
      case (Threw e c1)
      with m d teardown_then_fire [of br c1 SIGNALING_ERROR c'] show ?thesis
        by (simp add: onmessage_def dispatch_def on_reject_def catch_def and_then_def
            signaling_error_def)
    next
      case (Waiting c1)
      with m d show ?thesis
        by (simp add: onmessage_def dispatch_def on_reject_def catch_def and_then_def)
    qed
  qed
  moreover have "msg_type m = ''close'' \<Longrightarrow> callbacks c ''close'' = None \<Longrightarrow>
      onmessage br (Text (Json m)) c = Done c' \<Longrightarrow> cleared c'"
    using a by (simp add: onmessage_def dispatch_def catch_def fire_def signaling_error_def)
  moreover have "onmessage br (Text Malformed) c = Done c' \<Longrightarrow> cleared c'"
    using a by (simp add: onmessage_def catch_def signaling_error_def)
  moreover have "onerror br c = Done c' \<Longrightarrow> cleared c'"
    by (auto simp: onerror_def onerror_by_def and_then_def emit_def cleared_def
        split: outcome.splits dest!: disconnect_Done_cleared)
  moreover have "(h = CloseTearsDown \<or> h = CloseTearsDownTagged) \<Longrightarrow>
      run_onclose br h ev c = Done c' \<Longrightarrow> cleared c'"
    using a by (auto simp: run_onclose_def run_onclose_by_def)
  moreover have "oniceconnectionstatechange br ''failed'' c = Done c' \<Longrightarrow> cleared c'"
    using a by (simp add: oniceconnectionstatechange_def)
  ultimately show ?thesis using disconnect_Done_cleared by blast
qed

text \<open>C7 at the teardown of an established session.\<close>

theorem teardown_clears_witness:
  "disconnect chrome connected = Done (disconnect_finish (snd first_call)) \<and>
   cleared (disconnect_finish (snd first_call))"
proof -
  have "past_connecting connected" by (simp add: past_connecting_def model_defs)
  moreover have "closes_cleanly chrome" by (simp add: closes_cleanly_def chrome_def)
  ultimately
  have d: "disconnect chrome connected = Done (disconnect_finish (snd first_call))"
    unfolding first_call_def by (rule disconnect_completes)
  with teardown_clears [of chrome connected "disconnect_finish (snd first_call)"]
  show ?thesis by simp
qed

section \<open>C3: the negotiation flag\<close>

lemma calm_Done: "\<not> isNegotiating c \<Longrightarrow> calm (Done c)"
  and calm_Threw: "\<not> isNegotiating c \<Longrightarrow> calm (Threw e c)"
  and calm_Waiting: "\<not> isNegotiating c \<Longrightarrow> calm (Waiting c)"
  by (simp_all add: calm_def)

lemma calm_emit: "\<not> isNegotiating c \<Longrightarrow> \<not> isNegotiating (emit e c)"
  by (simp add: emit_def)

lemma calm_fire: "\<not> isNegotiating c \<Longrightarrow> calm (fire k mk c)"
  by (simp add: calm_def fire_def emit_def split: option.splits)

lemma calm_sendWs: "\<not> isNegotiating c \<Longrightarrow> calm (sendWs m c)"
  by (simp add: calm_def sendWs_def emit_def split: option.splits ready_state.splits)

lemma calm_and_then:
  "calm r \<Longrightarrow> (\<And>c. \<not> isNegotiating c \<Longrightarrow> calm (f c)) \<Longrightarrow> calm (and_then r f)"
  by (cases r) (simp_all add: and_then_def calm_def)

lemma calm_catch:
  "calm r \<Longrightarrow> (\<And>c. \<not> isNegotiating c \<Longrightarrow> calm (h c)) \<Longrightarrow> calm (catch r h)"
  by (cases r) (simp_all add: catch_def calm_def)

lemma calm_detached: "calm r \<Longrightarrow> calm (detached r)"
  by (cases r) (simp_all add: detached_def emit_def calm_def)

lemma calm_settle: "calm r \<Longrightarrow> \<not> isNegotiating (settle r)"
  by (cases r) (simp_all add: settle_def emit_def calm_def)

lemma calm_state_of: "calm r \<Longrightarrow> \<not> isNegotiating (state_of r)"
  by (simp add: calm_def)

lemma neg_begin: "\<not> isNegotiating (snd (disconnect_begin br c))"
  by (simp add: disconnect_begin_def Let_def split: prod.splits)

lemma neg_finish: "\<not> isNegotiating c \<Longrightarrow> \<not> isNegotiating (disconnect_finish c)"
  by (simp add: disconnect_finish_def)

lemma neg_reaches_closed:
  "\<not> isNegotiating c \<Longrightarrow> \<not> isNegotiating (socket_reaches_closed c)"
  by (simp add: socket_reaches_closed_def split: option.splits)

lemma calm_nested: "calm (nested_disconnect br c)"
proof -
  obtain t c1 where b: "disconnect_begin br c = (t, c1)" by (cases "disconnect_begin br c")
  from neg_begin [of br c] b have "\<not> isNegotiating c1" by simp
  with b show ?thesis
    by (simp add: calm_def nested_disconnect_def disconnect_finish_def split: promise.splits)
qed

lemma calm_onerror_by:
  "(\<And>c. calm (d c)) \<Longrightarrow> calm (onerror_by d c)"
  unfolding onerror_by_def by (rule calm_and_then) (simp_all add: calm_Done calm_emit)

lemma calm_run_onclose_by:
  "(\<And>c. calm (d c)) \<Longrightarrow> \<not> isNegotiating c \<Longrightarrow> calm (run_onclose_by d h ev c)"
  by (cases h)
    (simp_all add: run_onclose_by_def calm_Done calm_emit calm_and_then fire_disconnect_def
      calm_fire)

lemma neg_close_task:
  assumes "\<not> isNegotiating c"
  shows "\<not> isNegotiating (close_task br failed c)"
proof (cases "obj (ws c)")
  case None
  with assms show ?thesis by (simp add: close_task_def)
next
  case (Some w)
  let ?c0 = "socket_reaches_closed c"
  let ?c1 = "if failed \<or> failing w
              then settle (onerror_by (nested_disconnect br) ?c0) else ?c0"
  from assms have "\<not> isNegotiating ?c0" by (rule neg_reaches_closed)
  then have "\<not> isNegotiating ?c1"
    by (simp add: calm_settle calm_onerror_by calm_nested)
  then have "\<not> isNegotiating
      (settle (run_onclose_by (nested_disconnect br) (onclose w) 0 ?c1))"
    by (intro calm_settle calm_run_onclose_by calm_nested)
  with Some assms show ?thesis by (simp add: close_task_def Let_def)
qed

lemma neg_interval: "\<not> isNegotiating c \<Longrightarrow> \<not> isNegotiating (interval br k c)"
  by (cases k) (simp_all add: interval_def neg_close_task)

lemma neg_await:
  "\<not> isNegotiating c \<Longrightarrow> \<not> isNegotiating (snd (await_closed br sched t c))"
  by (induction sched arbitrary: t c) (simp_all add: Let_def neg_interval)

lemma calm_disconnect: "calm (disconnect br c)"
proof -
  obtain t c1 where b: "disconnect_begin br c = (t, c1)" by (cases "disconnect_begin br c")
  obtain r c2 where a: "await_closed br (closes_after br) t c1 = (r, c2)"
    by (cases "await_closed br (closes_after br) t c1")
  from neg_begin [of br c] b have "\<not> isNegotiating c1" by simp
  from neg_await [OF this, of br "closes_after br" t] a have "\<not> isNegotiating c2" by simp
  with a b show ?thesis
    by (simp add: calm_def disconnect_def disconnect_finish_def split: promise.splits)
qed

lemma calm_teardown_fire: "calm (and_then (disconnect br c) (fire_disconnect r))"
  by (rule calm_and_then) (simp_all add: calm_disconnect fire_disconnect_def calm_fire)

lemma calm_createPeerConnection: "\<not> isNegotiating c \<Longrightarrow> calm (createPeerConnection br c)"
  by (simp add: calm_def createPeerConnection_def emit_def Let_def)

lemma calm_addDataChannel: "\<not> isNegotiating c \<Longrightarrow> calm (addDataChannel l br c)"
  by (simp add: calm_def addDataChannel_def)

lemma calm_sendOffer: "\<not> isNegotiating c \<Longrightarrow> calm (sendOffer br c)"
  by (simp add: sendOffer_def calm_sendWs calm_Done calm_Threw)

lemma calm_createAnswer: "\<not> isNegotiating c \<Longrightarrow> calm (createAnswer br c)"
  unfolding createAnswer_def
  by (auto intro!: calm_catch calm_Done calm_Threw calm_sendWs calm_teardown_fire)

lemma calm_setOffer: "\<not> isNegotiating c \<Longrightarrow> calm (setOffer br c)"
  unfolding setOffer_def
  by (auto intro!: calm_and_then calm_catch calm_Threw calm_createPeerConnection
      calm_createAnswer calm_teardown_fire)

lemma calm_accept: "\<not> isNegotiating c \<Longrightarrow> calm (on_accept br m c)"
  unfolding on_accept_def
  by (intro calm_and_then calm_addDataChannel calm_sendOffer calm_fire)
    (auto intro!: calm_createPeerConnection calm_Done
      simp: emit_def set_onclose_def split: option.splits)

lemma calm_reject: "calm (on_reject br c)"
  unfolding on_reject_def
  by (intro calm_and_then calm_disconnect)
    (auto intro!: calm_Done calm_fire simp: emit_def fire_disconnect_def)

lemma calm_candidate: "\<not> isNegotiating c \<Longrightarrow> calm (on_candidate br m c)"
  by (cases "ice m")
    (simp_all add: on_candidate_def addIceCandidate_def calm_Done calm_Threw calm_detached)

lemma calm_dispatch:
  assumes "\<not> isNegotiating c"
  shows "calm (dispatch br m c)"
  using calm_sendWs [OF assms] calm_fire [OF assms] calm_Done [OF assms]
    calm_Threw [OF assms] calm_accept [OF assms] calm_reject calm_candidate [OF assms]
    calm_detached [OF calm_setOffer [OF assms]]
  by (simp add: dispatch_def setAnswer_def)

lemma calm_onmessage: "\<not> isNegotiating c \<Longrightarrow> calm (onmessage br d c)"
  unfolding onmessage_def signaling_error_def
  by (auto intro!: calm_catch calm_dispatch calm_teardown_fire calm_Done calm_Threw
      split: ws_data.splits parsed.splits)

lemma calm_on: "\<not> isNegotiating c \<Longrightarrow> calm (on kind cb c)"
  by (simp add: calm_def on_def js_assign_def split: option.splits)

lemma calm_connect: "\<not> isNegotiating c \<Longrightarrow> calm (connect br st meta c)"
  by (simp add: calm_def connect_def signaling_def set_onclose_def)

lemma calm_onopen: "\<not> isNegotiating c \<Longrightarrow> calm (onopen c)"
  unfolding onopen_def
  by (auto intro!: calm_and_then calm_sendWs calm_Done split: option.splits)

lemma calm_run_onclose: "\<not> isNegotiating c \<Longrightarrow> calm (run_onclose br h ev c)"
  unfolding run_onclose_def by (rule calm_run_onclose_by) (simp_all add: calm_disconnect)

lemma calm_ice: "\<not> isNegotiating c \<Longrightarrow> calm (oniceconnectionstatechange br st c)"
  by (simp add: oniceconnectionstatechange_def calm_teardown_fire calm_Done)

lemma neg_socket_fails: "\<not> isNegotiating c \<Longrightarrow> \<not> isNegotiating (socket_fails br ev c)"
proof (cases "obj (ws c)")
  case None
  assume "\<not> isNegotiating c"
  with None show ?thesis by (simp add: socket_fails_def)
next
  case (Some w)
  assume c: "\<not> isNegotiating c"
  show ?thesis
  proof (cases "readyState w = CLOSED")
    case True
    with Some c show ?thesis by (simp add: socket_fails_def)
  next
    case False
    obtain t1 c1 where b: "disconnect_begin br (socket_reaches_closed c) = (t1, c1)"
      by (cases "disconnect_begin br (socket_reaches_closed c)")
    from neg_begin [of br "socket_reaches_closed c"] b have n1: "\<not> isNegotiating c1" by simp
    let ?c2 = "settle (run_onclose br (onclose w) ev c1)"
    obtain r c3 where a: "await_closed br (closes_after br) t1 ?c2 = (r, c3)"
      by (cases "await_closed br (closes_after br) t1 ?c2")
    from n1 have "\<not> isNegotiating ?c2" by (intro calm_settle calm_run_onclose)
    from neg_await [OF this, of br "closes_after br" t1] a have n3: "\<not> isNegotiating c3"
      by simp
    from n1 have "\<not> isNegotiating (settle (run_onclose br (onclose w) ev
                       (emit (ConnectRejected ''WS-CLOSED'') (disconnect_finish c1))))"
      by (intro calm_settle calm_run_onclose calm_emit neg_finish)
    with Some False b a n3 show ?thesis
      by (simp add: socket_fails_def calm_emit neg_finish split: promise.splits)
  qed
qed

lemma neg_socket_closes: "\<not> isNegotiating c \<Longrightarrow> \<not> isNegotiating (socket_closes br ev c)"
proof (cases "obj (ws c)")
  case None
  assume "\<not> isNegotiating c"
  with None show ?thesis by (simp add: socket_closes_def)
next
  case (Some w)
  assume c: "\<not> isNegotiating c"
  then have "\<not> isNegotiating (settle (run_onclose br (onclose w) ev (socket_reaches_closed c)))"
    by (intro calm_settle calm_run_onclose neg_reaches_closed)
  with Some c neg_socket_fails [OF c, of br ev] show ?thesis
    by (simp add: socket_closes_def)
qed

lemma neg_step: "\<not> isNegotiating c \<Longrightarrow> \<not> isNegotiating (step br e c)"
proof (cases e)
  case (SocketFails ev)
  assume "\<not> isNegotiating c"
  with neg_socket_fails [of c br ev] SocketFails show ?thesis by simp
next
  case (SocketCloses ev)
  assume "\<not> isNegotiating c"
  with neg_socket_closes [of c br ev] SocketCloses show ?thesis by simp
next
  case (SocketMessage d)
  assume "\<not> isNegotiating c"
  with SocketMessage show ?thesis
    by (auto simp: socket_message_def split: option.splits intro!: calm_settle calm_onmessage)
next
  case SocketOpens
  assume "\<not> isNegotiating c"
  with SocketOpens show ?thesis
    by (auto simp: socket_opens_def split: option.splits intro!: calm_settle calm_onopen)
next
  case (CallOn kind cb)
  assume "\<not> isNegotiating c"
  with CallOn show ?thesis by (simp add: calm_on calm_state_of)
next
  case (CallConnect st meta)
  assume "\<not> isNegotiating c"
  with CallConnect show ?thesis by (simp add: calm_connect calm_state_of)
next
  case CallDisconnect
  then show ?thesis by (simp add: calm_disconnect calm_state_of)
next
  case (IceConnectionState st)
  assume "\<not> isNegotiating c"
  with IceConnectionState show ?thesis by (auto intro!: calm_settle calm_ice)
next
  case (LocalCandidate cand)
  assume "\<not> isNegotiating c"
  with LocalCandidate show ?thesis
    by (auto simp: onicecandidate_def split: option.splits
        intro!: calm_settle calm_sendWs calm_Done)
next
  case (Track sid)
  assume "\<not> isNegotiating c"
  with Track show ?thesis by (auto simp: ontrack_def intro!: calm_settle calm_fire)
next
  case (ChannelMessage l p)
  assume "\<not> isNegotiating c"
  with ChannelMessage show ?thesis
    by (auto simp: channel_onmessage_def intro!: calm_settle calm_fire)
qed (simp_all add: addDataChannel_def sendData_def emit_def
      onDataChannel_def channel_onopen_def channel_onclose_def channel_onerror_def
      channel_state_changes_def split: option.splits)

lemma neg_run: "\<not> isNegotiating c \<Longrightarrow> \<not> isNegotiating (run es c)"
proof (induction es arbitrary: c)
  case Nil
  then show ?case by simp
next
  case (Cons x es)
  obtain br e where x: "x = (br, e)" by (cases x)
  from Cons.prems have "\<not> isNegotiating (step br e c)" by (rule neg_step)
  then have "\<not> isNegotiating (run es (step br e c))" by (rule Cons.IH)
  with x show ?case by simp
qed

text \<open>
  C3, as the code has it. \<^verbatim>\<open>_isNegotiating\<close> is false after the constructor and after
  every history of calls and events: nothing in the class assigns true to it. The
  engine's "connected" state and every teardown assign false. So the flag is false at
  the end of register, accept, offer sent, answer received, "connected", as at every
  other moment.
\<close>

theorem negotiation_flag_stays_false:
  "\<not> isNegotiating (run es (Connection url room opts dbg)) \<and>
   oniceconnectionstatechange br ''connected'' c = Done (c\<lparr>isNegotiating := False\<rparr>) \<and>
   \<not> isNegotiating (state_of (disconnect br c))"
  using neg_run [of "Connection url room opts dbg" es] calm_disconnect [of br c]
  by (simp add: Connection_def oniceconnectionstatechange_def calm_def)

text \<open>C3 as amended, at the scenario register, accept, offer sent, answer received,
  "connected".\<close>

theorem negotiation_flag_witness:
  "\<not> isNegotiating
      (run [(chrome, CallConnect (Some camera) None), (chrome, SocketOpens),
            (chrome, SocketMessage (msg ''accept'')), (chrome, SocketMessage (msg ''answer'')),
            (chrome, IceConnectionState ''connected'')] fresh)"
  unfolding fresh_def by (rule negotiation_flag_stays_false [THEN conjunct1])

text \<open>
  C3 as stated fails: when the accept message has been handled, the peer connection has
  been created and the offer has been sent, and the flag is false.
\<close>

theorem negotiation_flag_counterexample:
  "effects connected =
     [Sent (Register ''room'' ''client'' None), EngineCreated, Sent OfferSdp,
      FiredConnect Noop None, ConnectResolved] \<and>
   \<not> isNegotiating connected"
  by (simp add: model_defs)

section \<open>What a teardown adds to the trace\<close>

lemma quietly_same: "effects c' = effects c \<Longrightarrow> quietly c c'"
  by (simp add: quietly_def)

lemma quietly_trans: "quietly a b \<Longrightarrow> quietly b c \<Longrightarrow> quietly a c"
  by (auto simp: quietly_def)

lemma quietly_emit: "silent e \<Longrightarrow> quietly c (emit e c)"
  by (simp add: quietly_def emit_def)

lemma quietly_and_then:
  "quietly c (state_of r) \<Longrightarrow> (\<And>c1. quietly c1 (state_of (f c1))) \<Longrightarrow>
   quietly c (state_of (and_then r f))"
  by (cases r) (auto simp: and_then_def intro: quietly_trans)

lemma quietly_settle: "quietly c (state_of r) \<Longrightarrow> quietly c (settle r)"
proof (cases r)
  case (Threw e c1)
  assume "quietly c (state_of r)"
  with Threw have "quietly c c1" by simp
  moreover have "quietly c1 (emit (Unhandled e) c1)"
    by (rule quietly_emit) (simp add: silent_def)
  ultimately show ?thesis using Threw by (simp add: settle_def quietly_trans)
qed (simp_all add: settle_def)

lemma begin_effects:
  "effects (snd (disconnect_begin br c)) = effects (stop_tracks c)"
  by (simp add: disconnect_begin_def closePeerConnection_def closeWebSocketConnection_def
      stop_tracks_def emit_def Let_def split: option.splits prod.splits)


lemma quietly_begin: "quietly c (snd (disconnect_begin br c))"
  by (simp add: quietly_def begin_effects stop_tracks_def emit_def silent_def
      split: option.splits)

lemma quietly_finish: "quietly c (disconnect_finish c)"
  by (simp add: quietly_same disconnect_finish_def)

lemma quietly_nested: "quietly c (state_of (nested_disconnect br c))"
proof -
  obtain t c1 where b: "disconnect_begin br c = (t, c1)" by (cases "disconnect_begin br c")
  from quietly_begin [of c br] b have "quietly c c1" by simp
  with b quietly_finish [of c1] show ?thesis
    by (auto simp: nested_disconnect_def split: promise.splits intro: quietly_trans)
qed

lemma quietly_fire_disconnect: "quietly c (state_of (fire_disconnect r c))"
  by (simp add: fire_disconnect_def fire_def quietly_emit silent_def quietly_same
      split: option.splits)

lemma quietly_onerror_by:
  "(\<And>c. quietly c (state_of (d c))) \<Longrightarrow> quietly c (state_of (onerror_by d c))"
  unfolding onerror_by_def
  by (rule quietly_and_then) (simp_all add: quietly_emit silent_def)

lemma quietly_run_onclose_by:
  "(\<And>c. quietly c (state_of (d c))) \<Longrightarrow> quietly c (state_of (run_onclose_by d h ev c))"
  by (cases h)
    (simp_all add: run_onclose_by_def quietly_emit silent_def quietly_same quietly_and_then
      quietly_fire_disconnect)

lemma quietly_reaches_closed: "quietly c (socket_reaches_closed c)"
  by (simp add: quietly_same socket_reaches_closed_def split: option.splits)

lemma quietly_close_task: "quietly c (close_task br failed c)"
proof (cases "obj (ws c)")
  case None
  then show ?thesis by (simp add: close_task_def quietly_same)
next
  case (Some w)
  let ?c0 = "socket_reaches_closed c"
  let ?c1 = "if failed \<or> failing w
              then settle (onerror_by (nested_disconnect br) ?c0) else ?c0"
  have "quietly ?c0 ?c1"
    by (simp add: quietly_same quietly_settle quietly_onerror_by quietly_nested)
  with quietly_reaches_closed [of c] have 1: "quietly c ?c1" by (rule quietly_trans)
  have "quietly ?c1 (settle (run_onclose_by (nested_disconnect br) (onclose w) 0 ?c1))"
    by (intro quietly_settle quietly_run_onclose_by quietly_nested)
  with 1 have "quietly c (settle (run_onclose_by (nested_disconnect br) (onclose w) 0 ?c1))"
    by (rule quietly_trans)
  with Some show ?thesis by (simp add: close_task_def Let_def quietly_same)
qed

lemma quietly_interval: "quietly c (interval br k c)"
  by (cases k) (simp_all add: interval_def quietly_close_task quietly_same)

lemma quietly_await: "quietly c (snd (await_closed br sched t c))"
proof (induction sched arbitrary: t c)
  case Nil
  then show ?case by (simp add: quietly_same)
next
  case (Cons k ks)
  from quietly_interval [of c br k] Cons [of "interval br k c" "polls_fire (interval br k c) t"]
  have "quietly c
      (snd (await_closed br ks (polls_fire (interval br k c) t) (interval br k c)))"
    by (rule quietly_trans)
  then show ?case by (simp add: Let_def quietly_same)
qed

lemma quietly_disconnect: "quietly c (state_of (disconnect br c))"
proof -
  obtain t c1 where b: "disconnect_begin br c = (t, c1)" by (cases "disconnect_begin br c")
  obtain r c2 where a: "await_closed br (closes_after br) t c1 = (r, c2)"
    by (cases "await_closed br (closes_after br) t c1")
  from quietly_begin [of c br] b have "quietly c c1" by simp
  moreover from quietly_await [of c1 br "closes_after br" t] a have "quietly c1 c2" by simp
  ultimately have "quietly c c2" by (rule quietly_trans)
  with a b quietly_finish [of c2] show ?thesis
    by (auto simp: disconnect_def split: promise.splits intro: quietly_trans)
qed

lemma quietly_signaling_error: "quietly c (state_of (signaling_error br c))"
  unfolding signaling_error_def
  by (rule quietly_and_then) (simp_all add: quietly_disconnect quietly_fire_disconnect)

section \<open>C2: \<^verbatim>\<open>connect\<close> on a Connection in use\<close>

text \<open>
  C2. On a Connection that has a socket or a peer connection, \<^verbatim>\<open>connect\<close> throws
  "Connection Already Exists!" and leaves the Connection as it was: no field changes and
  the trace of effects, so the list of frames sent, is the same.
\<close>

theorem connect_while_connected:
  "obj (ws c) \<noteq> None \<or> pc c \<noteq> None \<Longrightarrow>
   connect br st meta c = Threw ''Connection Already Exists!'' c"
  by (simp add: connect_def)

text \<open>C2 at a session that waits for the server's answer.\<close>

theorem connect_while_connected_witness:
  "ws registering =
     Holds \<lparr>readyState = OPEN, onclose = CloseTearsDown, onmessage_set = True,
            failing = False\<rparr> \<and>
   connect chrome (Some camera) None registering =
     Threw ''Connection Already Exists!'' registering"
proof -
  have w: "ws registering =
      Holds \<lparr>readyState = OPEN, onclose = CloseTearsDown, onmessage_set = True,
             failing = False\<rparr>"
    by (simp add: model_defs)
  then have "obj (ws registering) \<noteq> None \<or> pc registering \<noteq> None" by simp
  with w connect_while_connected [of registering chrome "Some camera" None] show ?thesis
    by simp
qed

section \<open>C5: the accept message\<close>

lemma accept_fails:
  assumes "findDataChannel ''dataChannel'' c \<noteq> None \<or> (pc c = None \<and> \<not> create_pc_ok br) \<or>
           \<not> create_channel_ok br \<or> \<not> create_offer_ok br \<or> \<not> set_local_ok br"
  shows "\<exists>e c1. on_accept br m c = Threw e c1 \<and> quietly c c1"
proof (cases "pc c = None \<and> \<not> create_pc_ok br")
  case True
  then show ?thesis
    by (auto simp: on_accept_def createPeerConnection_def and_then_def quietly_same)
next
  case False
  let ?r = "if pc c = None then createPeerConnection br c else Done c"
  from False obtain c1 where r: "?r = Done c1" and p: "pc c1 \<noteq> None"
    and d: "dataChannels c1 = dataChannels c"
    and q: "quietly c c1"
    by (cases "pc c = None")
      (auto simp: createPeerConnection_def Let_def emit_def quietly_def silent_def)
  from d have f: "findDataChannel ''dataChannel'' c1 = findDataChannel ''dataChannel'' c"
    by (simp add: findDataChannel_def)
  from assms False
  have "findDataChannel ''dataChannel'' c \<noteq> None \<or> \<not> create_channel_ok br \<or>
        \<not> create_offer_ok br \<or> \<not> set_local_ok br" by blast
  with p f have "\<exists>e. and_then (addDataChannel ''dataChannel'' br c1)
          (\<lambda>c. and_then (sendOffer br c)
          (\<lambda>c. and_then (fire ''connect'' (\<lambda>cb. FiredConnect cb (authzMetadata m)) c)
          (\<lambda>c. Done (emit ConnectResolved (set_onclose CloseTearsDownTagged c))))) = Threw e c1"
    by (auto simp: addDataChannel_def sendOffer_def and_then_def)
  with r q show ?thesis by (auto simp: on_accept_def and_then_def)
qed

text \<open>
  C5, as the code has it. An accept message that arrives on the open socket, when no
  channel labelled \<open>dataChannel\<close> is registered and the engine succeeds in creating the
  peer connection, the channel and the offer and in setting the local description, makes
  the handler (after creating the peer connection, if there is none) send exactly one
  frame, the offer, then call the \<^verbatim>\<open>connect\<close> callback with the server's
  authzMetadata, then resolve the promise of \<^verbatim>\<open>connect()\<close>, in this order. When a
  channel labelled \<open>dataChannel\<close> is registered already, or one of these engine calls
  fails, the handler sends no frame, does not call the \<^verbatim>\<open>connect\<close> callback and does
  not resolve \<^verbatim>\<open>connect()\<close>.
\<close>

theorem accept_sends_one_offer:
  "(obj (ws c) = Some w \<and> readyState w = OPEN \<and>
    findDataChannel ''dataChannel'' c = None \<and>
    create_pc_ok br \<and> create_channel_ok br \<and> create_offer_ok br \<and> set_local_ok br \<and>
    callbacks c ''connect'' = Some cb \<and> msg_type m = ''accept'' \<longrightarrow>
      (\<exists>c'. onmessage br (Text (Json m)) c = Done c' \<and>
         effects c' =
           effects c @ (if pc c = None then [EngineCreated] else []) @
             [Sent OfferSdp, FiredConnect cb (authzMetadata m), ConnectResolved])) \<and>
   (msg_type m = ''accept'' \<and>
    (findDataChannel ''dataChannel'' c \<noteq> None \<or> (pc c = None \<and> \<not> create_pc_ok br) \<or>
     \<not> create_channel_ok br \<or> \<not> create_offer_ok br \<or> \<not> set_local_ok br) \<longrightarrow>
      quietly c (state_of (onmessage br (Text (Json m)) c)))"
proof (intro conjI impI)
  assume a: "obj (ws c) = Some w \<and> readyState w = OPEN \<and>
    findDataChannel ''dataChannel'' c = None \<and>
    create_pc_ok br \<and> create_channel_ok br \<and> create_offer_ok br \<and> set_local_ok br \<and>
    callbacks c ''connect'' = Some cb \<and> msg_type m = ''accept''"
  show "\<exists>c'. onmessage br (Text (Json m)) c = Done c' \<and>
         effects c' =
           effects c @ (if pc c = None then [EngineCreated] else []) @
             [Sent OfferSdp, FiredConnect cb (authzMetadata m), ConnectResolved]"
  proof (cases "pc c")
    case None
    with a show ?thesis
      by (simp add: onmessage_def dispatch_def on_accept_def catch_def and_then_def
          createPeerConnection_def addDataChannel_def findDataChannel_def sendOffer_def
          sendWs_def fire_def emit_def set_onclose_def Let_def)
  next
    case (Some p)
    with a show ?thesis
      by (simp add: onmessage_def dispatch_def on_accept_def catch_def and_then_def
          addDataChannel_def findDataChannel_def sendOffer_def
          sendWs_def fire_def emit_def set_onclose_def)
  qed
next
  assume b: "msg_type m = ''accept'' \<and>
    (findDataChannel ''dataChannel'' c \<noteq> None \<or> (pc c = None \<and> \<not> create_pc_ok br) \<or>
     \<not> create_channel_ok br \<or> \<not> create_offer_ok br \<or> \<not> set_local_ok br)"
  then obtain e c1 where t: "on_accept br m c = Threw e c1" and q: "quietly c c1"
    using accept_fails [of c br m] by blast
  from b t have "onmessage br (Text (Json m)) c = signaling_error br c1"
    by (simp add: onmessage_def dispatch_def catch_def)
  with q quietly_signaling_error [of c1 br]
  show "quietly c (state_of (onmessage br (Text (Json m)) c))"
    by (simp add: quietly_trans)
qed

text \<open>
  C5 as amended: at a session that waits for the server's answer the accept message
  yields the offer, the callback and the resolution; at a session where a channel
  labelled \<open>dataChannel\<close> is registered it yields none of them.
\<close>

theorem accept_sends_one_offer_witness:
  "ws registering =
     Holds \<lparr>readyState = OPEN, onclose = CloseTearsDown, onmessage_set = True,
            failing = False\<rparr> \<and>
   findDataChannel ''dataChannel'' registering = None \<and>
   callbacks registering ''connect'' = Some Noop \<and>
   (\<exists>c'. onmessage chrome (msg ''accept'') registering = Done c' \<and>
      effects c' = [Sent (Register ''room'' ''client'' None), EngineCreated, Sent OfferSdp,
                    FiredConnect Noop None, ConnectResolved]) \<and>
   findDataChannel ''dataChannel'' offered_with_channel = Some remote_channel \<and>
   quietly offered_with_channel
     (state_of (onmessage chrome (msg ''accept'') offered_with_channel))"
proof -
  let ?m = "\<lparr>msg_type = ''accept'', authzMetadata = None, ice = Absent\<rparr>"
  have w: "ws registering =
      Holds \<lparr>readyState = OPEN, onclose = CloseTearsDown, onmessage_set = True,
             failing = False\<rparr>"
    and f: "findDataChannel ''dataChannel'' registering = None"
    and k: "callbacks registering ''connect'' = Some Noop"
    and e: "effects registering = [Sent (Register ''room'' ''client'' None)]"
    and p: "pc registering = None"
    by (simp_all add: model_defs)
  have b: "create_pc_ok chrome" "create_channel_ok chrome" "create_offer_ok chrome"
    "set_local_ok chrome" by (simp_all add: chrome_def)
  from w f k b p e
    accept_sends_one_offer [of registering
      "\<lparr>readyState = OPEN, onclose = CloseTearsDown, onmessage_set = True,
        failing = False\<rparr>" chrome Noop ?m]
  have 1: "\<exists>c'. onmessage chrome (msg ''accept'') registering = Done c' \<and>
      effects c' = [Sent (Register ''room'' ''client'' None), EngineCreated, Sent OfferSdp,
                    FiredConnect Noop None, ConnectResolved]"
    by (simp add: msg_def)
  have g: "findDataChannel ''dataChannel'' offered_with_channel = Some remote_channel"
    by (simp add: model_defs)
  with accept_sends_one_offer [of offered_with_channel _ chrome _ ?m, THEN conjunct2]
  have 2: "quietly offered_with_channel
     (state_of (onmessage chrome (msg ''accept'') offered_with_channel))"
    by (simp add: msg_def)
  from w f k 1 g 2 show ?thesis by blast
qed

text \<open>
  C5 as stated fails. After register, an offer of the remote side and a channel of the
  remote side labelled \<open>dataChannel\<close>, the accept message makes \<^verbatim>\<open>addDataChannel\<close>
  reject; the handler tears down and fires \<^verbatim>\<open>disconnect\<close> with SIGNALING-ERROR; no
  offer is sent and \<^verbatim>\<open>connect\<close> is not fired. The same happens when the accept message
  is the first one and \<^verbatim>\<open>createOffer\<close> fails.
\<close>

theorem accept_counterexample:
  "findDataChannel ''dataChannel'' offered_with_channel = Some remote_channel \<and>
   effects offered_with_channel =
     [Sent (Register ''room'' ''client'' None), EngineCreated, Sent AnswerSdp] \<and>
   effects (socket_message chrome (msg ''accept'') offered_with_channel) =
     effects offered_with_channel @ [TracksStopped 7, FiredDisconnect Noop SIGNALING_ERROR] \<and>
   effects (socket_message (chrome\<lparr>create_offer_ok := False\<rparr>) (msg ''accept'') registering) =
     effects registering @
       [EngineCreated, TracksStopped 7, FiredDisconnect Noop SIGNALING_ERROR]"
  by (simp add: model_defs)

section \<open>C6: the reject message\<close>





section \<open>C8: \<^verbatim>\<open>sendData\<close>\<close>

lemma find_not_open:
  "\<forall>d\<in>set ds. label d = l \<longrightarrow> chan_state d \<noteq> ChOpen \<Longrightarrow>
   find (\<lambda>channel. label channel = l) ds = Some d \<Longrightarrow> chan_state d \<noteq> ChOpen"
  by (induction ds) (auto split: if_splits)

lemma find_append_new:
  "find P xs = None \<Longrightarrow> P x \<Longrightarrow> find P (xs @ [x]) = Some x"
  by (induction xs) (auto split: if_splits)

text \<open>\<^verbatim>\<open>sendData\<close> fails whenever no registered channel with the label is open.\<close>

lemma sendData_none_open:
  "\<forall>d\<in>set (dataChannels c). label d = l \<longrightarrow> chan_state d \<noteq> ChOpen \<Longrightarrow>
   sendData p l c = Threw ''datachannel is not open'' c"
  using find_not_open [of "dataChannels c" l]
  by (auto simp: sendData_def findDataChannel_def split: option.splits)

text \<open>It succeeds right after the open callback of a channel whose label is not in the
  registry.\<close>

lemma sendData_after_open:
  "findDataChannel (label d) c = None \<Longrightarrow>
   sendData p (label d) (channel_onopen d c) =
     Done (emit (ChannelSent (label d) p) (channel_onopen d c))"
  using find_append_new [of "\<lambda>channel. label channel = label d" "dataChannels c"
      "d\<lparr>chan_state := ChOpen\<rparr>"]
  by (simp add: sendData_def findDataChannel_def channel_onopen_def)

text \<open>
  C8 at the following input. On an established session the application calls
  \<^verbatim>\<open>addDataChannel('x')\<close> twice before either channel is open; the guard "DataChannel
  Already Exists!" looks at the registry, which holds opened channels only, so both
  calls succeed. The first channel opens and starts closing, the second one opens: the
  registry holds two channels labelled \<open>x\<close>, the second one open, its open callback just
  fired. \<^verbatim>\<open>sendData(5, 'x')\<close> finds the first one and fails.
\<close>

theorem sendData_misses_open_channel:
  "dataChannels two_channels =
     [\<lparr>label = ''x'', chan_state = ChClosing\<rparr>, \<lparr>label = ''x'', chan_state = ChOpen\<rparr>] \<and>
   sendData 5 ''x'' two_channels = Threw ''datachannel is not open'' two_channels"
proof -
  have d: "dataChannels two_channels =
     [\<lparr>label = ''x'', chan_state = ChClosing\<rparr>, \<lparr>label = ''x'', chan_state = ChOpen\<rparr>]"
    by (simp add: model_defs)
  then show ?thesis by (simp add: sendData_def findDataChannel_def)
qed

section \<open>C9: \<^verbatim>\<open>on\<close>\<close>

text \<open>
  For a kind that is in the table, \<^verbatim>\<open>on\<close> replaces the callback and changes nothing
  else.
\<close>

lemma on_known_kind:
  "callbacks c kind \<noteq> None \<Longrightarrow>
   on kind cb c = Done (c\<lparr>callbacks := (callbacks c)(kind \<mapsto> cb)\<rparr>)"
  by (auto simp: on_def js_in_def js_assign_def)

text \<open>
  C9 at the kind \<^verbatim>\<open>toString\<close>, which is none of the five: the name is inherited from
  \<^verbatim>\<open>Object.prototype\<close>, so \<^verbatim>\<open>in\<close> is true and the call is not ignored; the table gets
  a new entry.
\<close>

theorem on_inherited_name:
  "callbacks fresh ''toString'' = None \<and>
   callbacks (state_of (on ''toString'' (Handler 1) fresh)) ''toString'' = Some (Handler 1)"
  by (simp add: model_defs)

section \<open>C4: the close message\<close>

text \<open>
  C4 at a close message on a session that waits for the server's answer. The table has
  no \<^verbatim>\<open>close\<close> entry, and \<^verbatim>\<open>on\<close> cannot add one; calling it is a TypeError, which
  the \<^verbatim>\<open>catch\<close> block turns into a teardown and a \<^verbatim>\<open>disconnect\<close> event with reason
  SIGNALING-ERROR.
\<close>

theorem close_message_is_signaling_error:
  "on ''close'' (Handler 1) fresh = Done fresh \<and>
   effects (socket_message chrome (msg ''close'') registering) =
     effects registering @ [TracksStopped 7, FiredDisconnect Noop SIGNALING_ERROR]"
  by (simp add: model_defs)

section \<open>C10: a message that is not a string\<close>

text \<open>
  C10. For a message whose data is not a string the handler returns at once: the
  Connection, with its trace of effects, is what it was, for the closure itself and for
  the delivery of the event by the browser.
\<close>

theorem binary_message_ignored:
  "onmessage br Binary c = Done c \<and> socket_message br Binary c = c"
  by (simp add: onmessage_def socket_message_def settle_def split: option.splits)

text \<open>C10 on an established session.\<close>

theorem binary_message_ignored_witness:
  "onmessage chrome Binary connected = Done connected \<and>
   socket_message chrome Binary connected = connected"
  by (rule binary_message_ignored)

end
